theory Spec2Isabelle
  imports Main "HOL-Library.AList"
begin

section \<open>The signaling Hub (apps/signaling/src/index.ts)\<close>

text \<open>
  The Hub keeps one process-wide registry
  \<^verbatim>\<open>roomMembers : Map<string, Map<string, {userId, socketId, peerId}>>\<close>.
  A JavaScript \<^verbatim>\<open>Map\<close> iterates in insertion order, \<^verbatim>\<open>set\<close> on a present key
  keeps the key's position and \<^verbatim>\<open>set\<close> on an absent key appends, \<^verbatim>\<open>delete\<close> removes
  the entry. This is an association list with \<open>AList.update\<close>, \<open>AList.delete\<close> and
  \<open>map_of\<close>; \<^verbatim>\<open>size\<close> is the length of the list (the keys of a \<^verbatim>\<open>Map\<close> are distinct).
\<close>

type_synonym socketId = string
type_synonym roomId = string
type_synonym peerId = string

record member =
  userId :: string
  socketId :: socketId
  peerId :: peerId

type_synonym roomUsers = "(socketId \<times> member) list"

text \<open>
  Besides the registry, every handler uses the broadcast groups of the transport library:
  \<^verbatim>\<open>socket.join(roomId)\<close>, \<^verbatim>\<open>socket.leave(roomId)\<close>, and \<^verbatim>\<open>socket.to(roomId).emit(...)\<close>,
  which sends to every socket of the group except the sending socket. The library is not
  part of the repository; its groups are the field \<open>adapterRooms\<close>: the set of sockets
  that joined \<open>roomId\<close> and have not left it. When a socket connects, the library puts it
  into the group named by the socket's own id; when a socket's transport closes, the
  library takes the socket out of every group before the \<^verbatim>\<open>disconnect\<close> handler runs.
\<close>

record hub =
  roomMembers :: "(roomId \<times> roomUsers) list"
  adapterRooms :: "roomId \<Rightarrow> socketId set"

text \<open>
  What a handler sends. \<open>target\<close> is the call as written (\<^verbatim>\<open>socket.emit\<close> or
  \<^verbatim>\<open>socket.to(roomId).emit\<close>), \<open>recipients\<close> the sockets the library delivers to at that
  moment. The payload type \<open>'p\<close> of offers, answers and candidates is a type parameter.
\<close>

datatype target = ToSocket socketId | ToRoomExcept roomId socketId

datatype 'p hub_msg =
    ErrorMsg string
  | RoomJoined roomId "member list"
  | UserJoined member
  | UserLeft string socketId
  | OfferMsg 'p socketId "peerId option"
  | AnswerMsg 'p socketId "peerId option"
  | IceCandidateMsg 'p socketId "peerId option"

record 'p emission =
  target :: target
  recipients :: "socketId set"
  msg :: "'p hub_msg"

definition socket_emit :: "socketId \<Rightarrow> 'p hub_msg \<Rightarrow> 'p emission" where
  "socket_emit sid m = \<lparr>target = ToSocket sid, recipients = {sid}, msg = m\<rparr>"

definition socket_to_emit :: "hub \<Rightarrow> socketId \<Rightarrow> roomId \<Rightarrow> 'p hub_msg \<Rightarrow> 'p emission" where
  "socket_to_emit s sid rid m =
     \<lparr>target = ToRoomExcept rid sid, recipients = adapterRooms s rid - {sid}, msg = m\<rparr>"

definition MAX_ROOM_SIZE :: nat where
  "MAX_ROOM_SIZE = 10"

text \<open>
  \<^verbatim>\<open>io.on('connection', ...)\<close> (line 66): the library has put the new socket into the
  group of its own id; the callback registers the handlers below and sends nothing.
\<close>

definition connection :: "hub \<Rightarrow> socketId \<Rightarrow> hub \<times> 'p emission list" where
  "connection s sid =
     (s\<lparr>adapterRooms := (adapterRooms s)(sid := insert sid (adapterRooms s sid))\<rparr>, [])"

text \<open>
  The \<^verbatim>\<open>join-room\<close> handler (index.ts, lines 70 to 171). \<open>pid\<close> is the value that
  \<^verbatim>\<open>uuidv4()\<close> returns in this run of the handler. The writes to the optional database
  are swallowed by the handler and touch neither the registry nor the groups; the
  handler is taken as one step of the single-threaded event loop.
\<close>

definition join_room ::
  "hub \<Rightarrow> socketId \<Rightarrow> roomId \<Rightarrow> string \<Rightarrow> peerId \<Rightarrow> hub \<times> 'p emission list" where
  "join_room s sid rid uid pid =
    (let rooms1 = (if map_of (roomMembers s) rid = None
                   then AList.update rid [] (roomMembers s) else roomMembers s);
         roomUsers = (case map_of rooms1 rid of Some us \<Rightarrow> us | None \<Rightarrow> [])
     in if length roomUsers \<ge> MAX_ROOM_SIZE
        then (s\<lparr>roomMembers := rooms1\<rparr>, [socket_emit sid (ErrorMsg ''Room is full'')])
        else
          let s1 = s\<lparr>roomMembers := rooms1,
                     adapterRooms := (adapterRooms s)(rid := insert sid (adapterRooms s rid))\<rparr>;
              me = \<lparr>userId = uid, socketId = sid, peerId = pid\<rparr>;
              roomUsers' = AList.update sid me roomUsers;
              s2 = s1\<lparr>roomMembers := AList.update rid roomUsers' rooms1\<rparr>;
              otherUsers = filter (\<lambda>u. socketId u \<noteq> sid) (map snd roomUsers')
          in (s2, [socket_to_emit s2 sid rid (UserJoined me),
                   socket_emit sid (RoomJoined rid otherUsers)]))"

text \<open>
  The \<^verbatim>\<open>offer\<close>, \<^verbatim>\<open>answer\<close> and \<^verbatim>\<open>ice-candidate\<close> handlers (lines 174 to 198): one
  \<^verbatim>\<open>socket.to(data.roomId).emit\<close> each, no read of the registry.
\<close>

definition relay_offer ::
  "hub \<Rightarrow> socketId \<Rightarrow> roomId \<Rightarrow> 'p \<Rightarrow> peerId option \<Rightarrow> hub \<times> 'p emission list" where
  "relay_offer s sid rid p tp = (s, [socket_to_emit s sid rid (OfferMsg p sid tp)])"

definition relay_answer ::
  "hub \<Rightarrow> socketId \<Rightarrow> roomId \<Rightarrow> 'p \<Rightarrow> peerId option \<Rightarrow> hub \<times> 'p emission list" where
  "relay_answer s sid rid p tp = (s, [socket_to_emit s sid rid (AnswerMsg p sid tp)])"

definition relay_ice_candidate ::
  "hub \<Rightarrow> socketId \<Rightarrow> roomId \<Rightarrow> 'p \<Rightarrow> peerId option \<Rightarrow> hub \<times> 'p emission list" where
  "relay_ice_candidate s sid rid p tp =
     (s, [socket_to_emit s sid rid (IceCandidateMsg p sid tp)])"

text \<open>
  The \<^verbatim>\<open>leave-room\<close> handler (lines 233 to 277): \<^verbatim>\<open>socket.leave\<close>, then the removal
  from the registry when the room exists, then, outside that \<^verbatim>\<open>if\<close>, the broadcast of
  \<^verbatim>\<open>user-left\<close> with the \<^verbatim>\<open>userId\<close> the client sent.
\<close>

definition leave_room ::
  "hub \<Rightarrow> socketId \<Rightarrow> roomId \<Rightarrow> string \<Rightarrow> hub \<times> 'p emission list" where
  "leave_room s sid rid uid =
    (let s1 = s\<lparr>adapterRooms := (adapterRooms s)(rid := adapterRooms s rid - {sid})\<rparr>;
         rooms' = (case map_of (roomMembers s1) rid of
                     None \<Rightarrow> roomMembers s1
                   | Some roomUsers \<Rightarrow>
                       let roomUsers' = AList.delete sid roomUsers;
                           rooms1 = AList.update rid roomUsers' (roomMembers s1)
                       in if length roomUsers' = 0 then AList.delete rid rooms1 else rooms1);
         s2 = s1\<lparr>roomMembers := rooms'\<rparr>
     in (s2, [socket_to_emit s2 sid rid (UserLeft uid sid)]))"

text \<open>
  The \<^verbatim>\<open>disconnect\<close> handler (lines 280 to 323). The loop runs over the entries of
  \<^verbatim>\<open>roomMembers\<close>; the only entry it deletes is the current one, so it visits every
  entry the registry had when the loop began. \<^verbatim>\<open>user?.userId || 'unknown'\<close> is
  \<^verbatim>\<open>'unknown'\<close> for the empty string.
\<close>

fun disconnect_loop ::
  "socketId \<Rightarrow> (roomId \<times> roomUsers) list \<Rightarrow> hub \<Rightarrow> 'p emission list \<Rightarrow> hub \<times> 'p emission list" where
  "disconnect_loop sid [] s out = (s, out)"
| "disconnect_loop sid ((rid, users) # rest) s out =
    (case map_of users sid of
       None \<Rightarrow> disconnect_loop sid rest s out
     | Some user \<Rightarrow>
         let users' = AList.delete sid users;
             s1 = s\<lparr>roomMembers := AList.update rid users' (roomMembers s)\<rparr>;
             e = socket_to_emit s1 sid rid
                   (UserLeft (if userId user = [] then ''unknown'' else userId user) sid);
             s2 = (if length users' = 0
                   then s1\<lparr>roomMembers := AList.delete rid (roomMembers s1)\<rparr> else s1)
         in disconnect_loop sid rest s2 (out @ [e]))"

definition disconnect :: "hub \<Rightarrow> socketId \<Rightarrow> hub \<times> 'p emission list" where
  "disconnect s sid =
     disconnect_loop sid (roomMembers s)
       (s\<lparr>adapterRooms := (\<lambda>r. adapterRooms s r - {sid})\<rparr>) []"

text \<open>
  The events a socket can send, and the Hub as a machine started with no room. The
  \<^verbatim>\<open>send-message\<close> handler reads and writes neither the registry nor the groups and is
  left out. Each handler mutates the registry and the groups before its first
  \<^verbatim>\<open>await\<close>; the model takes a handler, with the emissions that follow its awaits,
  as one step of the event loop.
\<close>

datatype 'p hub_event =
    Connect socketId
  | JoinRoom socketId roomId string peerId
  | Offer socketId roomId 'p "peerId option"
  | Answer socketId roomId 'p "peerId option"
  | IceCandidate socketId roomId 'p "peerId option"
  | LeaveRoom socketId roomId string
  | Disconnect socketId

fun hub_step :: "hub \<Rightarrow> 'p hub_event \<Rightarrow> hub \<times> 'p emission list" where
  "hub_step s (Connect sid) = connection s sid"
| "hub_step s (JoinRoom sid rid uid pid) = join_room s sid rid uid pid"
| "hub_step s (Offer sid rid p tp) = relay_offer s sid rid p tp"
| "hub_step s (Answer sid rid p tp) = relay_answer s sid rid p tp"
| "hub_step s (IceCandidate sid rid p tp) = relay_ice_candidate s sid rid p tp"
| "hub_step s (LeaveRoom sid rid uid) = leave_room s sid rid uid"
| "hub_step s (Disconnect sid) = disconnect s sid"

definition hub_init :: hub where
  "hub_init = \<lparr>roomMembers = [], adapterRooms = (\<lambda>r. {})\<rparr>"

fun hub_run :: "hub \<Rightarrow> 'p hub_event list \<Rightarrow> hub" where
  "hub_run s [] = s"
| "hub_run s (e # es) = hub_run (fst (hub_step s e)) es"


section \<open>The mesh client (class MultiPeerWebRTCClient)\<close>

text \<open>
  The platform's \<^verbatim>\<open>RTCPeerConnection\<close> is not code of the repository. The client reads
  its \<^verbatim>\<open>signalingState\<close> and \<^verbatim>\<open>iceConnectionState\<close>, lists its senders and calls its
  asynchronous methods. The model keeps those two states, the track of each sender
  (\<open>None\<close> for a sender without track) and the list of the method calls made so far.
  Whether a call resolves or rejects, and the signaling state a resolved
  \<^verbatim>\<open>setLocalDescription\<close> or \<^verbatim>\<open>setRemoteDescription\<close> leaves behind, is decided by the
  platform: it is an argument of the modelled method. Session descriptions and
  candidates are passed through by the client and never read.
\<close>

datatype signalingState =
  Stable | HaveLocalOffer | HaveRemoteOffer | HaveLocalPranswer | HaveRemotePranswer
  | SignalingClosed

datatype iceConnectionState =
  IceNew | IceChecking | IceConnected | IceCompleted | IceFailed | IceDisconnected | IceClosed

type_synonym sessionDescription = string
type_synonym iceCandidateInit = string
type_synonym trackId = nat

datatype engine_call =
    CreateOffer
  | SetLocalDescription sessionDescription
  | SetRemoteDescription sessionDescription
  | AddIceCandidate iceCandidateInit

record engine =
  signalingState :: signalingState
  iceConnectionState :: iceConnectionState
  senders :: "trackId option list"
  calls :: "engine_call list"

text \<open>
  The outcome of an awaited platform promise: the value it resolves to, or the
  \<^verbatim>\<open>message\<close> of the error it rejects with (\<open>None\<close> when the error has no message).
\<close>

datatype 'a settled = Resolved 'a | Rejected "string option"

text \<open>
  \<^verbatim>\<open>interface RemotePeer { userId, peerId, socketId, peerConnection, stream, isInitiator }\<close>.
  The three identifiers carry the prefix \<open>remote\<close> here, as the Hub's member record
  owns the plain names. A stream is the list of its tracks.
\<close>

record remotePeer =
  remoteUserId :: string
  remotePeerId :: peerId
  remoteSocketId :: socketId
  peerConnection :: engine
  stream :: "trackId list option"
  isInitiator :: bool

datatype trackKind = Audio | Video

record track =
  kind :: trackKind
  enabled :: bool

text \<open>
  What the client does to the outside, in the order it does it: messages given to the
  socket, calls of the registered callbacks, console lines (the arguments of the call,
  pictographs left out), and the closing of a connection or stopping of a track that the
  client drops afterwards.
\<close>

datatype console_level = Log | Warn | Error

datatype effect =
    EmitOffer roomId sessionDescription peerId
  | OnError string
  | OnUserLeft string
  | Console console_level "string list"
  | ClosePeerConnection socketId
  | StopTrack trackId

text \<open>
  The fields of the class that the modelled methods use. \<open>socket\<close> says whether
  \<^verbatim>\<open>this.socket\<close> is non-null, \<open>localStream\<close> is \<open>None\<close> for \<^verbatim>\<open>null\<close>, the two
  callback fields say whether a callback is registered. \<open>tracks\<close> is the store of the
  \<^verbatim>\<open>MediaStreamTrack\<close> objects: a stream and a sender hold references into it, so two
  of them may hold the same track.
\<close>

record client =
  socket :: bool
  roomId :: roomId
  localStream :: "trackId list option"
  remotePeers :: "(socketId \<times> remotePeer) list"
  isNegotiating :: "socketId set"
  onUserLeftCallback :: bool
  onErrorCallback :: bool
  tracks :: "trackId \<Rightarrow> track option"
  effects :: "effect list"

definition console :: "console_level \<Rightarrow> string list \<Rightarrow> client \<Rightarrow> client" where
  "console l args c = c\<lparr>effects := effects c @ [Console l args]\<rparr>"

definition signalingState_name :: "signalingState \<Rightarrow> string" where
  "signalingState_name st =
     (case st of Stable \<Rightarrow> ''stable'' | HaveLocalOffer \<Rightarrow> ''have-local-offer''
      | HaveRemoteOffer \<Rightarrow> ''have-remote-offer'' | HaveLocalPranswer \<Rightarrow> ''have-local-pranswer''
      | HaveRemotePranswer \<Rightarrow> ''have-remote-pranswer'' | SignalingClosed \<Rightarrow> ''closed'')"

definition message_text :: "string option \<Rightarrow> string" where
  "message_text m = (case m of None \<Rightarrow> ''undefined'' | Some t \<Rightarrow> t)"

text \<open>\<^verbatim>\<open>String.prototype.includes\<close>: the second string occurs in the first.\<close>

fun str_includes :: "string \<Rightarrow> string \<Rightarrow> bool" where
  "str_includes [] sub = (sub = [])"
| "str_includes (x # xs) sub = (take (length sub) (x # xs) = sub \<or> str_includes xs sub)"

text \<open>
  \<^verbatim>\<open>createOffer(peer)\<close> (lines 329 to 363) is an \<^verbatim>\<open>async\<close> method: it runs up to an
  \<^verbatim>\<open>await\<close>, and goes on when the awaited promise has settled; other handlers of the
  client can run in between. \<open>createOffer_begin\<close> is the run up to the first
  \<^verbatim>\<open>await\<close> (of \<^verbatim>\<open>peerConnection.createOffer\<close>), \<open>createOffer_offered\<close> the run from
  there to the second (of \<^verbatim>\<open>setLocalDescription\<close>), \<open>createOffer_applied\<close> the rest.
  Each returns the client and the peer object as it leaves them, and says what the method
  waits for. A rejection goes to the \<^verbatim>\<open>catch\<close>, which logs; every way out passes the
  \<^verbatim>\<open>finally\<close>, which removes the socketId from \<^verbatim>\<open>isNegotiating\<close>.
\<close>

datatype offer_phase = OfferDone | AwaitCreateOffer | AwaitSetLocalDescription sessionDescription

definition createOffer_finally :: "client \<Rightarrow> remotePeer \<Rightarrow> client" where
  "createOffer_finally c peer = c\<lparr>isNegotiating := isNegotiating c - {remoteSocketId peer}\<rparr>"

definition createOffer_catch :: "client \<Rightarrow> remotePeer \<Rightarrow> client" where
  "createOffer_catch c peer =
     createOffer_finally
       (console Error [''Error creating offer for '' @ remoteUserId peer @ '':''] c) peer"

definition createOffer_begin :: "client \<Rightarrow> remotePeer \<Rightarrow> client \<times> remotePeer \<times> offer_phase" where
  "createOffer_begin c peer =
    (if remoteSocketId peer \<in> isNegotiating c
     then (console Log [''Already negotiating with:'', remoteUserId peer] c, peer, OfferDone)
     else
       let c1 = c\<lparr>isNegotiating := insert (remoteSocketId peer) (isNegotiating c)\<rparr>;
           pc = peerConnection peer
       in if signalingState pc = Stable \<and> iceConnectionState pc = IceNew
          then (c1, peer\<lparr>peerConnection := pc\<lparr>calls := calls pc @ [CreateOffer]\<rparr>\<rparr>,
                AwaitCreateOffer)
          else (createOffer_finally c1 peer, peer, OfferDone))"

definition createOffer_offered ::
  "client \<Rightarrow> remotePeer \<Rightarrow> sessionDescription settled \<Rightarrow> client \<times> remotePeer \<times> offer_phase" where
  "createOffer_offered c peer offerResult =
    (case offerResult of
       Rejected m \<Rightarrow> (createOffer_catch c peer, peer, OfferDone)
     | Resolved offer \<Rightarrow>
         let pc = peerConnection peer
         in (c, peer\<lparr>peerConnection := pc\<lparr>calls := calls pc @ [SetLocalDescription offer]\<rparr>\<rparr>,
             AwaitSetLocalDescription offer))"

definition createOffer_applied ::
  "client \<Rightarrow> remotePeer \<Rightarrow> sessionDescription \<Rightarrow> signalingState settled
     \<Rightarrow> client \<times> remotePeer" where
  "createOffer_applied c peer offer setLocalResult =
    (case setLocalResult of
       Rejected m \<Rightarrow> (createOffer_catch c peer, peer)
     | Resolved st \<Rightarrow>
         let peer' = peer\<lparr>peerConnection := (peerConnection peer)\<lparr>signalingState := st\<rparr>\<rparr>;
             c1 = (if socket c
                   then console Log [''Sent offer to '' @ remoteUserId peer]
                          (c\<lparr>effects := effects c
                               @ [EmitOffer (roomId c) offer (remotePeerId peer)]\<rparr>)
                   else c)
         in (createOffer_finally c1 peer, peer'))"

text \<open>
  The whole call, with no other handler of the client between its parts. \<open>offerResult\<close>
  settles \<^verbatim>\<open>peerConnection.createOffer\<close>, \<open>setLocalResult\<close> settles
  \<^verbatim>\<open>setLocalDescription\<close>.
\<close>

definition createOffer ::
  "client \<Rightarrow> remotePeer \<Rightarrow> sessionDescription settled \<Rightarrow> signalingState settled
     \<Rightarrow> client \<times> remotePeer" where
  "createOffer c peer offerResult setLocalResult =
    (case createOffer_begin c peer of
       (c1, peer1, AwaitCreateOffer) \<Rightarrow>
         (case createOffer_offered c1 peer1 offerResult of
            (c2, peer2, AwaitSetLocalDescription offer) \<Rightarrow>
              createOffer_applied c2 peer2 offer setLocalResult
          | (c2, peer2, ph) \<Rightarrow> (c2, peer2))
     | (c1, peer1, ph) \<Rightarrow> (c1, peer1))"

text \<open>
  \<^verbatim>\<open>createPeerConnection(userId, peerId, socketId, isInitiator)\<close> (lines 260 to 326), the
  only caller of \<^verbatim>\<open>createOffer\<close>. \<open>new_RTCPeerConnection\<close> is the connection as the
  platform's constructor returns it: signaling state stable, ICE connection state new,
  no sender. \<^verbatim>\<open>addTrack\<close> gives the connection one sender for each local track. The
  three \<^verbatim>\<open>on...\<close> callbacks that the method installs run on later events of the
  platform and are not part of this call.
\<close>

definition new_RTCPeerConnection :: engine where
  "new_RTCPeerConnection =
     \<lparr>signalingState = Stable, iceConnectionState = IceNew, senders = [], calls = []\<rparr>"

definition new_peer :: "client \<Rightarrow> string \<Rightarrow> peerId \<Rightarrow> socketId \<Rightarrow> bool \<Rightarrow> remotePeer" where
  "new_peer c uid pid sid isInit =
     \<lparr>remoteUserId = uid, remotePeerId = pid, remoteSocketId = sid,
      peerConnection =
        new_RTCPeerConnection
          \<lparr>senders := (case localStream c of None \<Rightarrow> [] | Some ts \<Rightarrow> map Some ts)\<rparr>,
      stream = None, isInitiator = isInit\<rparr>"

definition createPeerConnection ::
  "client \<Rightarrow> string \<Rightarrow> peerId \<Rightarrow> socketId \<Rightarrow> bool \<Rightarrow> sessionDescription settled
     \<Rightarrow> signalingState settled \<Rightarrow> client" where
  "createPeerConnection c uid pid sid isInit offerResult setLocalResult =
    (if map_of (remotePeers c) sid \<noteq> None
     then console Log [''Peer connection already exists for:'', sid] c
     else
       let c0 = console Log [''Creating peer connection for '' @ uid @ '' (initiator: ''
                             @ (if isInit then ''true'' else ''false'') @ '')''] c;
           peer = new_peer c0 uid pid sid isInit;
           c1 = c0\<lparr>remotePeers := AList.update sid peer (remotePeers c0)\<rparr>
       in if isInit
          then (case createOffer c1 peer offerResult setLocalResult of
                  (c2, peer') \<Rightarrow> c2\<lparr>remotePeers := AList.update sid peer' (remotePeers c2)\<rparr>)
          else c1)"

text \<open>
  \<^verbatim>\<open>handleAnswer(peer, answer)\<close> (lines 409 to 428). The whole body is inside
  \<^verbatim>\<open>try\<close>; the \<^verbatim>\<open>catch\<close> logs and, unless the error's message includes
  \<^verbatim>\<open>'stable'\<close>, calls \<^verbatim>\<open>onErrorCallback\<close>. \<open>newResult\<close> settles
  \<^verbatim>\<open>new RTCSessionDescription(answer)\<close>, which may throw before the engine is called,
  \<open>setRemoteResult\<close> settles \<^verbatim>\<open>setRemoteDescription\<close>.
\<close>

definition handleAnswer_catch :: "client \<Rightarrow> remotePeer \<Rightarrow> string option \<Rightarrow> client" where
  "handleAnswer_catch c peer m =
    (let c1 = console Error [''Error handling answer from '' @ remoteUserId peer @ '':''] c
     in if (case m of None \<Rightarrow> False | Some t \<Rightarrow> str_includes t ''stable'')
        then console Log [''Connection already established with:'', remoteUserId peer] c1
        else if onErrorCallback c1
             then c1\<lparr>effects := effects c1
                     @ [OnError (''Error handling answer: '' @ message_text m)]\<rparr>
             else c1)"

definition handleAnswer ::
  "client \<Rightarrow> remotePeer \<Rightarrow> sessionDescription \<Rightarrow> unit settled \<Rightarrow> signalingState settled
     \<Rightarrow> client \<times> remotePeer" where
  "handleAnswer c peer answer newResult setRemoteResult =
    (let pc = peerConnection peer;
         currentState = signalingState pc
     in if currentState = HaveLocalOffer
        then
          (case newResult of
             Rejected m \<Rightarrow> (handleAnswer_catch c peer m, peer)
           | Resolved u \<Rightarrow>
               let pc1 = pc\<lparr>calls := calls pc @ [SetRemoteDescription answer]\<rparr>
               in (case setRemoteResult of
                     Resolved st \<Rightarrow>
                       (console Log [''Set remote description from '' @ remoteUserId peer] c,
                        peer\<lparr>peerConnection := pc1\<lparr>signalingState := st\<rparr>\<rparr>)
                   | Rejected m \<Rightarrow>
                       (handleAnswer_catch c peer m, peer\<lparr>peerConnection := pc1\<rparr>)))
        else (console Warn [''Cannot handle answer from '' @ remoteUserId peer
                            @ '', signaling state: '' @ signalingState_name currentState] c,
              peer))"

text \<open>
  The \<^verbatim>\<open>ice-candidate\<close> listener (lines 237 to 246). \<open>sender\<close> is the field
  \<^verbatim>\<open>data.from\<close>, \<open>candidate\<close> is \<open>None\<close> when \<^verbatim>\<open>data.candidate\<close> is missing.
  \<open>newResult\<close> settles \<^verbatim>\<open>new RTCIceCandidate(...)\<close>, which may throw, and \<open>addResult\<close>
  settles \<^verbatim>\<open>addIceCandidate\<close>.
\<close>

definition on_ice_candidate ::
  "client \<Rightarrow> socketId \<Rightarrow> iceCandidateInit option \<Rightarrow> unit settled \<Rightarrow> unit settled \<Rightarrow> client" where
  "on_ice_candidate c sender candidate newResult addResult =
    (case map_of (remotePeers c) sender of
       None \<Rightarrow> c
     | Some peer \<Rightarrow>
         (case candidate of
            None \<Rightarrow> c
          | Some cand \<Rightarrow>
              let failed = console Warn [''Failed to add ICE candidate:'']
              in (case newResult of
                    Rejected m \<Rightarrow> failed c
                  | Resolved u \<Rightarrow>
                      let pc = peerConnection peer;
                          peer' = peer\<lparr>peerConnection :=
                                         pc\<lparr>calls := calls pc @ [AddIceCandidate cand]\<rparr>\<rparr>;
                          c1 = c\<lparr>remotePeers := AList.update sender peer' (remotePeers c)\<rparr>
                      in (case addResult of
                            Rejected m \<Rightarrow> failed c1
                          | Resolved u' \<Rightarrow> c1))))"

text \<open>
  \<^verbatim>\<open>removePeerConnection(userId)\<close> (lines 451 to 461) and the \<^verbatim>\<open>user-left\<close> listener
  (lines 215 to 219). The listener is handed the event \<^verbatim>\<open>{userId, socketId}\<close> that the
  Hub sends.
\<close>

definition removePeerConnection :: "client \<Rightarrow> string \<Rightarrow> client" where
  "removePeerConnection c uid =
    (case find (\<lambda>p. remoteUserId p = uid) (map snd (remotePeers c)) of
       None \<Rightarrow> c
     | Some peer \<Rightarrow>
         console Log [''Removed peer connection for '' @ uid]
           (c\<lparr>remotePeers := AList.delete (remoteSocketId peer) (remotePeers c),
              effects := effects c @ [ClosePeerConnection (remoteSocketId peer)]
                         @ (case stream peer of None \<Rightarrow> [] | Some ts \<Rightarrow> map StopTrack ts)\<rparr>))"

definition on_user_left :: "client \<Rightarrow> string \<Rightarrow> socketId \<Rightarrow> client" where
  "on_user_left c uid sid =
    (let c1 = console Log [''User left:'', uid] c;
         c2 = removePeerConnection c1 uid
     in if onUserLeftCallback c2 then c2\<lparr>effects := effects c2 @ [OnUserLeft uid]\<rparr> else c2)"

text \<open>
  \<^verbatim>\<open>toggleCamera\<close> and \<^verbatim>\<open>toggleMicrophone\<close> (lines 464 to 503) are the same text for
  \<^verbatim>\<open>'video'\<close> and \<^verbatim>\<open>'audio'\<close>. \<open>first_of_kind\<close> is \<^verbatim>\<open>getVideoTracks()[0]\<close>,
  \<open>sender_of_kind\<close> is \<^verbatim>\<open>getSenders().find(s => s.track?.kind === 'video')\<close> followed by
  the test \<^verbatim>\<open>sender && sender.track\<close>, and \<open>mirror_enabled\<close> is the \<^verbatim>\<open>forEach\<close> over
  the peers with its assignment \<^verbatim>\<open>sender.track.enabled = videoTrack.enabled\<close>.
\<close>

definition has_kind :: "(trackId \<Rightarrow> track option) \<Rightarrow> trackKind \<Rightarrow> trackId \<Rightarrow> bool" where
  "has_kind h k t = (case h t of None \<Rightarrow> False | Some tr \<Rightarrow> kind tr = k)"

definition enabled_of :: "(trackId \<Rightarrow> track option) \<Rightarrow> trackId \<Rightarrow> bool" where
  "enabled_of h t = (case h t of None \<Rightarrow> False | Some tr \<Rightarrow> enabled tr)"

definition set_enabled ::
  "(trackId \<Rightarrow> track option) \<Rightarrow> trackId \<Rightarrow> bool \<Rightarrow> (trackId \<Rightarrow> track option)" where
  "set_enabled h t b = (case h t of None \<Rightarrow> h | Some tr \<Rightarrow> h(t \<mapsto> tr\<lparr>enabled := b\<rparr>))"

definition first_of_kind ::
  "(trackId \<Rightarrow> track option) \<Rightarrow> trackKind \<Rightarrow> trackId list \<Rightarrow> trackId option" where
  "first_of_kind h k ts = find (has_kind h k) ts"

definition sender_of_kind ::
  "(trackId \<Rightarrow> track option) \<Rightarrow> trackKind \<Rightarrow> trackId option list \<Rightarrow> trackId option" where
  "sender_of_kind h k ss =
     (case find (\<lambda>s. case s of None \<Rightarrow> False | Some t \<Rightarrow> has_kind h k t) ss of
        None \<Rightarrow> None
      | Some s \<Rightarrow> s)"

fun mirror_enabled ::
  "trackKind \<Rightarrow> trackId \<Rightarrow> remotePeer list \<Rightarrow> (trackId \<Rightarrow> track option)
     \<Rightarrow> (trackId \<Rightarrow> track option)" where
  "mirror_enabled k v [] h = h"
| "mirror_enabled k v (peer # rest) h =
     (case sender_of_kind h k (senders (peerConnection peer)) of
        None \<Rightarrow> mirror_enabled k v rest h
      | Some t \<Rightarrow> mirror_enabled k v rest (set_enabled h t (enabled_of h v)))"

definition toggleTrack :: "trackKind \<Rightarrow> client \<Rightarrow> client \<times> bool" where
  "toggleTrack k c =
    (case localStream c of
       None \<Rightarrow> (c, False)
     | Some ts \<Rightarrow>
         (case first_of_kind (tracks c) k ts of
            None \<Rightarrow> (c, False)
          | Some v \<Rightarrow>
              let h1 = set_enabled (tracks c) v (\<not> enabled_of (tracks c) v);
                  h2 = mirror_enabled k v (map snd (remotePeers c)) h1
              in (c\<lparr>tracks := h2\<rparr>, enabled_of h2 v)))"

definition toggleCamera :: "client \<Rightarrow> client \<times> bool" where
  "toggleCamera = toggleTrack Video"

definition toggleMicrophone :: "client \<Rightarrow> client \<times> bool" where
  "toggleMicrophone = toggleTrack Audio"

section \<open>Invariants, closed forms and example states\<close>

text \<open>
  A room of the registry is well formed when its keys are distinct, as the keys of a
  \<^verbatim>\<open>Map\<close> are, and it has between one and \<open>MAX_ROOM_SIZE\<close> members. \<open>members_of\<close> is
  the set of sockets the registry lists for a room. \<open>groups_ok\<close> says that the broadcast
  group of a name holds every socket the registry lists for it and, besides them, at most
  the socket whose own id is that name.
\<close>

definition room_ok :: "roomUsers \<Rightarrow> bool" where
  "room_ok us \<longleftrightarrow> distinct (map fst us) \<and> 1 \<le> length us \<and> length us \<le> MAX_ROOM_SIZE"

definition registry_ok :: "(roomId \<times> roomUsers) list \<Rightarrow> bool" where
  "registry_ok rooms \<longleftrightarrow> distinct (map fst rooms) \<and> (\<forall>(rid, us) \<in> set rooms. room_ok us)"

definition members_of :: "hub \<Rightarrow> roomId \<Rightarrow> socketId set" where
  "members_of s rid = (case map_of (roomMembers s) rid of None \<Rightarrow> {} | Some us \<Rightarrow> fst ` set us)"

definition groups_ok :: "hub \<Rightarrow> bool" where
  "groups_ok s \<longleftrightarrow>
     (\<forall>rid. members_of s rid \<subseteq> adapterRooms s rid
            \<and> adapterRooms s rid \<subseteq> insert rid (members_of s rid))"

text \<open>
  What the loop of the \<^verbatim>\<open>disconnect\<close> handler makes of the registry, and what it
  sends for one room, written without the loop; the lemmas \<open>disconnect_rooms\<close> and
  \<open>disconnect_out\<close> prove that the handler computes them.
\<close>

fun purge :: "socketId \<Rightarrow> (roomId \<times> roomUsers) list \<Rightarrow> (roomId \<times> roomUsers) list" where
  "purge sid [] = []"
| "purge sid ((rid, us) # rest) =
     (if map_of us sid = None then (rid, us) # purge sid rest
      else if AList.delete sid us = [] then purge sid rest
      else (rid, AList.delete sid us) # purge sid rest)"

definition left_on_disconnect :: "hub \<Rightarrow> socketId \<Rightarrow> roomId \<times> roomUsers \<Rightarrow> 'p emission" where
  "left_on_disconnect s sid r =
     \<lparr>target = ToRoomExcept (fst r) sid, recipients = adapterRooms s (fst r) - {sid},
      msg = UserLeft (case map_of (snd r) sid of None \<Rightarrow> ''unknown''
                      | Some u \<Rightarrow> if userId u = [] then ''unknown'' else userId u) sid\<rparr>"

definition hub_inv :: "hub \<Rightarrow> bool" where
  "hub_inv s \<longleftrightarrow> registry_ok (roomMembers s) \<and> groups_ok s"

text \<open>States and event sequences used as concrete inputs.\<close>

definition example_members :: roomUsers where
  "example_members =
     map (\<lambda>c. ([c], \<lparr>userId = [c], socketId = [c], peerId = [c]\<rparr>)) ''abcdefghij''"

definition full_room_hub :: hub where
  "full_room_hub =
     \<lparr>roomMembers = [(''R2'', example_members)],
      adapterRooms = (\<lambda>r. if r = ''R2'' then fst ` set example_members else {})\<rparr>"

definition two_joins :: "nat hub_event list" where
  "two_joins = [Connect ''s1'', JoinRoom ''s1'' ''R1'' ''alice'' ''p1'',
                Connect ''s2'', JoinRoom ''s2'' ''R1'' ''bob'' ''p2'']"


definition three_rooms_hub :: hub where
  "three_rooms_hub =
     \<lparr>roomMembers =
        [(''R1'', [(''s1'', \<lparr>userId = ''alice'', socketId = ''s1'', peerId = ''p1''\<rparr>),
                   (''s2'', \<lparr>userId = ''bob'', socketId = ''s2'', peerId = ''p2''\<rparr>)]),
         (''R2'', [(''s1'', \<lparr>userId = ''alice'', socketId = ''s1'', peerId = ''p3''\<rparr>)]),
         (''R3'', [(''s3'', \<lparr>userId = ''carol'', socketId = ''s3'', peerId = ''p4''\<rparr>)])],
      adapterRooms = (\<lambda>r. if r = ''R1'' then {''s1'', ''s2''}
                          else if r = ''R2'' then {''s1''}
                          else if r = ''R3'' then {''s3''} else {})\<rparr>"

text \<open>
  Readings of a client state used in the statements: the offers handed to the socket,
  the errors handed to \<^verbatim>\<open>onErrorCallback\<close> and the connections closed, in order.
\<close>

definition offers_sent :: "client \<Rightarrow> effect list" where
  "offers_sent c = filter (\<lambda>e. case e of EmitOffer r d p \<Rightarrow> True | _ \<Rightarrow> False) (effects c)"

definition errors_reported :: "client \<Rightarrow> effect list" where
  "errors_reported c = filter (\<lambda>e. case e of OnError m \<Rightarrow> True | _ \<Rightarrow> False) (effects c)"

definition connections_closed :: "client \<Rightarrow> effect list" where
  "connections_closed c =
     filter (\<lambda>e. case e of ClosePeerConnection k \<Rightarrow> True | _ \<Rightarrow> False) (effects c)"

text \<open>
  The map of peer sessions is well formed when its keys are distinct and every session is
  stored under its own socketId, as \<^verbatim>\<open>this.remotePeers.set(socketId, peer)\<close> in
  \<^verbatim>\<open>createPeerConnection\<close>, the only place that adds a session, stores it.
\<close>

definition wf_peers :: "(socketId \<times> remotePeer) list \<Rightarrow> bool" where
  "wf_peers ps \<longleftrightarrow> distinct (map fst ps) \<and> (\<forall>(k, p) \<in> set ps. remoteSocketId p = k)"

definition example_engine :: engine where
  "example_engine =
     \<lparr>signalingState = Stable, iceConnectionState = IceNew, senders = [Some 0, Some 1],
      calls = []\<rparr>"

definition example_peer :: remotePeer where
  "example_peer =
     \<lparr>remoteUserId = ''bob'', remotePeerId = ''p2'', remoteSocketId = ''s2'',
      peerConnection = example_engine, stream = Some [5], isInitiator = True\<rparr>"

definition example_tracks :: "trackId \<Rightarrow> track option" where
  "example_tracks =
     (\<lambda>t. if t = 0 then Some \<lparr>kind = Audio, enabled = True\<rparr>
          else if t = 1 then Some \<lparr>kind = Video, enabled = True\<rparr>
          else if t = 2 then Some \<lparr>kind = Video, enabled = False\<rparr>
          else None)"

definition example_client :: client where
  "example_client =
     \<lparr>socket = True, roomId = ''R1'', localStream = Some [0, 1],
      remotePeers = [(''s2'', example_peer)], isNegotiating = {},
      onUserLeftCallback = True, onErrorCallback = True,
      tracks = example_tracks, effects = []\<rparr>"

definition offering_peer :: remotePeer where
  "offering_peer =
     example_peer\<lparr>peerConnection := example_engine\<lparr>signalingState := HaveLocalOffer\<rparr>\<rparr>"

definition two_bobs_client :: client where
  "two_bobs_client =
     example_client\<lparr>remotePeers :=
       [(''s1'', example_peer\<lparr>remoteUserId := ''alice'', remotePeerId := ''p1'',
                              remoteSocketId := ''s1''\<rparr>),
        (''s2'', example_peer),
        (''s3'', example_peer\<lparr>remotePeerId := ''p3'', remoteSocketId := ''s3''\<rparr>)]\<rparr>"

text \<open>
  The tracks that the \<^verbatim>\<open>forEach\<close> of a toggle writes to: for each peer, the track of
  its first sender of the kind.
\<close>

definition mirrored :: "(trackId \<Rightarrow> track option) \<Rightarrow> trackKind \<Rightarrow> remotePeer list \<Rightarrow> trackId set" where
  "mirrored h k peers =
     {t. \<exists>peer \<in> set peers. sender_of_kind h k (senders (peerConnection peer)) = Some t}"

definition stale_sender_client :: client where
  "stale_sender_client =
     example_client\<lparr>remotePeers :=
       [(''s2'', example_peer\<lparr>peerConnection := example_engine\<lparr>senders := [Some 0, Some 2]\<rparr>\<rparr>)]\<rparr>"

section \<open>Properties\<close>

subsection \<open>The registry under the disconnect loop\<close>

lemma update_mid:
  "k \<notin> fst ` set pre \<Longrightarrow> AList.update k v (pre @ (k, w) # post) = pre @ (k, v) # post"
  by (induction pre) auto

lemma delete_mid:
  "k \<notin> fst ` set pre \<Longrightarrow> k \<notin> fst ` set post \<Longrightarrow>
   AList.delete k (pre @ (k, w) # post) = pre @ post"
  by (induction pre) auto

lemma disconnect_loop_adapter:
  "adapterRooms (fst (disconnect_loop sid rs s out)) = adapterRooms s"
  by (induction sid rs s out rule: disconnect_loop.induct) (auto simp: Let_def split: option.splits)

lemma disconnect_loop_rooms:
  "distinct (map fst (pre @ rs)) \<Longrightarrow> roomMembers s = pre @ rs \<Longrightarrow>
   roomMembers (fst (disconnect_loop sid rs s out)) = pre @ purge sid rs"
proof (induction rs arbitrary: pre s out)
  case Nil
  then show ?case by simp
next
  case (Cons r rs)
  obtain rid us where r: "r = (rid, us)" by (cases r)
  from Cons.prems have nin: "rid \<notin> fst ` set pre" "rid \<notin> fst ` set rs"
    and d: "distinct (map fst (pre @ rs))" by (auto simp: r)
  show ?case
  proof (cases "map_of us sid")
    case None
    have "distinct (map fst ((pre @ [r]) @ rs))" using Cons.prems(1) by simp
    moreover have "roomMembers s = (pre @ [r]) @ rs" using Cons.prems(2) by simp
    ultimately have "roomMembers (fst (disconnect_loop sid rs s out)) = (pre @ [r]) @ purge sid rs"
      by (rule Cons.IH)
    with None show ?thesis by (simp add: r)
  next
    case (Some user)
    let ?us' = "AList.delete sid us"
    let ?s1 = "s\<lparr>roomMembers := AList.update rid ?us' (roomMembers s)\<rparr>"
    have up: "roomMembers ?s1 = pre @ (rid, ?us') # rs"
      using Cons.prems(2) nin by (simp add: r update_mid)
    show ?thesis
    proof (cases "?us' = []")
      case True
      let ?s2 = "?s1\<lparr>roomMembers := AList.delete rid (roomMembers ?s1)\<rparr>"
      have "roomMembers ?s2 = pre @ rs" using up nin by (simp add: delete_mid)
      with d have "roomMembers (fst (disconnect_loop sid rs ?s2 (out @ [socket_to_emit ?s1 sid rid
              (UserLeft (if userId user = [] then ''unknown'' else userId user) sid)]))) = pre @ purge sid rs"
        by (rule Cons.IH)
      with Some True show ?thesis by (simp add: r Let_def)
    next
      case False
      have "distinct (map fst ((pre @ [(rid, ?us')]) @ rs))" using Cons.prems(1) by (simp add: r)
      moreover have "roomMembers ?s1 = (pre @ [(rid, ?us')]) @ rs" using up by simp
      ultimately have "roomMembers (fst (disconnect_loop sid rs ?s1 (out @ [socket_to_emit ?s1 sid rid
              (UserLeft (if userId user = [] then ''unknown'' else userId user) sid)]))) = (pre @ [(rid, ?us')]) @ purge sid rs"
        by (rule Cons.IH)
      with Some False show ?thesis by (simp add: r Let_def)
    qed
  qed
qed

lemma disconnect_rooms:
  assumes "distinct (map fst (roomMembers s))"
  shows "roomMembers (fst (disconnect s sid)) = purge sid (roomMembers s)"
proof -
  let ?s0 = "s\<lparr>adapterRooms := (\<lambda>r. adapterRooms s r - {sid})\<rparr>"
  have "roomMembers (fst (disconnect_loop sid (roomMembers s) ?s0 [])) = [] @ purge sid (roomMembers s)"
    by (rule disconnect_loop_rooms) (use assms in simp_all)
  then show ?thesis by (simp add: disconnect_def)
qed

lemma disconnect_adapter:
  "adapterRooms (fst (disconnect s sid)) = (\<lambda>r. adapterRooms s r - {sid})"
  by (simp add: disconnect_def disconnect_loop_adapter)

lemma disconnect_loop_out:
  "snd (disconnect_loop sid rs s out) =
     out @ map (left_on_disconnect s sid) (filter (\<lambda>r. map_of (snd r) sid \<noteq> None) rs)"
proof (induction sid rs s out rule: disconnect_loop.induct)
  case (1 sid s out)
  then show ?case by simp
next
  case (2 sid rid users rest s out)
  show ?case
  proof (cases "map_of users sid")
    case None
    with 2 show ?thesis by simp
  next
    case (Some user)
    with 2 show ?thesis
      by (simp add: Let_def left_on_disconnect_def socket_to_emit_def)
  qed
qed

lemma disconnect_out:
  "snd (disconnect s sid) =
     map (left_on_disconnect s sid) (filter (\<lambda>r. map_of (snd r) sid \<noteq> None) (roomMembers s))"
  by (simp add: disconnect_def disconnect_loop_out left_on_disconnect_def)

lemma map_of_purge:
  "distinct (map fst rooms) \<Longrightarrow>
   map_of (purge sid rooms) rid =
     (case map_of rooms rid of None \<Rightarrow> None
      | Some us \<Rightarrow> if map_of us sid \<noteq> None \<and> AList.delete sid us = [] then None
                   else Some (AList.delete sid us))"
proof (induction rooms)
  case Nil
  then show ?case by simp
next
  case (Cons r rooms)
  obtain k us where r: "r = (k, us)" by (cases r)
  from Cons.prems have nin: "k \<notin> fst ` set rooms" and d: "distinct (map fst rooms)"
    by (auto simp: r)
  from nin have none: "map_of rooms k = None" by (simp add: map_of_eq_None_iff)
  have same: "map_of us sid = None \<Longrightarrow> AList.delete sid us = us"
    by (simp add: map_of_eq_None_iff)
  show ?case using Cons.IH [OF d] none same by (auto simp: r)
qed

lemma keys_purge: "fst ` set (purge sid rooms) \<subseteq> fst ` set rooms"
  by (induction sid rooms rule: purge.induct) auto

lemma distinct_purge: "distinct (map fst rooms) \<Longrightarrow> distinct (map fst (purge sid rooms))"
proof (induction sid rooms rule: purge.induct)
  case (1 sid)
  then show ?case by simp
next
  case (2 sid rid us rest)
  then show ?case using keys_purge [of sid rest] by auto
qed

lemma room_ok_delete:
  "room_ok us \<Longrightarrow> AList.delete sid us \<noteq> [] \<Longrightarrow> room_ok (AList.delete sid us)"
proof -
  assume ok: "room_ok us" and ne: "AList.delete sid us \<noteq> []"
  have "length (AList.delete sid us) \<le> length us" by (simp add: AList.delete_eq)
  moreover have "1 \<le> length (AList.delete sid us)" using ne by (cases "AList.delete sid us") auto
  ultimately show ?thesis using ok by (simp add: room_ok_def AList.distinct_delete)
qed

lemma rooms_ok_purge:
  "\<forall>(rid, us) \<in> set rooms. room_ok us \<Longrightarrow> \<forall>(rid, us) \<in> set (purge sid rooms). room_ok us"
  by (induction sid rooms rule: purge.induct) (auto simp: room_ok_delete)

lemma registry_ok_purge: "registry_ok rooms \<Longrightarrow> registry_ok (purge sid rooms)"
  unfolding registry_ok_def using distinct_purge rooms_ok_purge by blast

subsection \<open>The invariant of the Hub\<close>

lemma set_update_subset: "set (AList.update k v al) \<subseteq> insert (k, v) (set al)"
  by (induction al) auto

lemma length_update:
  "length (AList.update k v al) = (if k \<in> fst ` set al then length al else Suc (length al))"
  by (induction al) auto

lemma keys_delete: "fst ` set (AList.delete k al) = fst ` set al - {k}"
  by (induction al) auto

lemma registry_ok_update:
  "registry_ok rooms \<Longrightarrow> room_ok us \<Longrightarrow> registry_ok (AList.update rid us rooms)"
  unfolding registry_ok_def using set_update_subset [of rid us rooms]
  by (auto simp: AList.distinct_update)

lemma registry_ok_delete:
  assumes "registry_ok rooms"
  shows "registry_ok (AList.delete rid rooms)"
proof -
  have "set (AList.delete rid rooms) \<subseteq> set rooms" by (auto simp: AList.delete_eq)
  moreover have "distinct (map fst (AList.delete rid rooms))"
    using assms by (simp add: registry_ok_def AList.distinct_delete)
  ultimately show ?thesis using assms unfolding registry_ok_def by blast
qed

lemma registry_ok_lookup:
  "registry_ok rooms \<Longrightarrow> map_of rooms rid = Some us \<Longrightarrow> room_ok us"
  unfolding registry_ok_def by (auto dest: map_of_SomeD)

lemma room_ok_update:
  assumes "distinct (map fst us)" "length us < MAX_ROOM_SIZE"
  shows "room_ok (AList.update sid m us)"
proof -
  have "distinct (map fst (AList.update sid m us))"
    using assms(1) by (rule AList.distinct_update)
  moreover have "length (AList.update sid m us) \<le> MAX_ROOM_SIZE"
    using assms(2) by (simp add: length_update)
  moreover have "1 \<le> length (AList.update sid m us)"
    by (cases "AList.update sid m us") simp_all
  ultimately show ?thesis by (simp add: room_ok_def)
qed

lemma join_room_registry_ok:
  assumes "registry_ok (roomMembers s)"
  shows "registry_ok (roomMembers (fst (join_room s sid rid uid pid)))"
proof (cases "map_of (roomMembers s) rid")
  case None
  have "room_ok (AList.update sid \<lparr>userId = uid, socketId = sid, peerId = pid\<rparr> [])"
    by (rule room_ok_update) (simp_all add: MAX_ROOM_SIZE_def)
  then show ?thesis using None assms
    by (simp add: join_room_def Let_def AList.update_conv' MAX_ROOM_SIZE_def registry_ok_update)
next
  case (Some us)
  then have "room_ok us" using assms by (simp add: registry_ok_lookup)
  then have "distinct (map fst us)" by (simp add: room_ok_def)
  then show ?thesis using Some assms
    by (simp add: join_room_def Let_def registry_ok_update room_ok_update)
qed

lemma leave_room_registry_ok:
  assumes "registry_ok (roomMembers s)"
  shows "registry_ok (roomMembers (fst (leave_room s sid rid uid)))"
proof (cases "map_of (roomMembers s) rid")
  case None
  then show ?thesis using assms by (simp add: leave_room_def Let_def)
next
  case (Some us)
  then have ok: "room_ok us" using assms by (simp add: registry_ok_lookup)
  show ?thesis
  proof (cases "AList.delete sid us = []")
    case True
    then show ?thesis using Some assms
      by (simp add: leave_room_def Let_def registry_ok_delete AList.delete_update_same)
  next
    case False
    then show ?thesis using Some assms ok
      by (simp add: leave_room_def Let_def registry_ok_update room_ok_delete)
  qed
qed

lemma disconnect_registry_ok:
  "registry_ok (roomMembers s) \<Longrightarrow> registry_ok (roomMembers (fst (disconnect s sid)))"
  by (simp add: disconnect_rooms registry_ok_def registry_ok_purge [unfolded registry_ok_def])

lemma members_of_join_room:
  "members_of (fst (join_room s sid rid uid pid)) r
     = (if r = rid \<and> length (case map_of (roomMembers s) rid of None \<Rightarrow> [] | Some us \<Rightarrow> us)
                        < MAX_ROOM_SIZE
        then insert sid (members_of s r) else members_of s r)"
proof (cases "map_of (roomMembers s) rid")
  case None
  then show ?thesis
    by (auto simp: members_of_def join_room_def Let_def AList.update_conv' MAX_ROOM_SIZE_def)
next
  case (Some us)
  then show ?thesis
    by (auto simp: members_of_def join_room_def Let_def AList.update_conv' AList.dom_update)
qed

lemma adapterRooms_join_room:
  "adapterRooms (fst (join_room s sid rid uid pid)) r
     = (if r = rid \<and> length (case map_of (roomMembers s) rid of None \<Rightarrow> [] | Some us \<Rightarrow> us)
                        < MAX_ROOM_SIZE
        then insert sid (adapterRooms s r) else adapterRooms s r)"
proof (cases "map_of (roomMembers s) rid")
  case None
  then show ?thesis
    by (simp add: join_room_def Let_def AList.update_conv' MAX_ROOM_SIZE_def)
next
  case (Some us)
  then show ?thesis by (simp add: join_room_def Let_def)
qed

lemma join_room_groups_ok:
  assumes "groups_ok s"
  shows "groups_ok (fst (join_room s sid rid uid pid))"
  using assms unfolding groups_ok_def members_of_join_room adapterRooms_join_room by auto

lemma members_of_leave_room:
  "members_of (fst (leave_room s sid rid uid)) r
     = (if r = rid then members_of s r - {sid} else members_of s r)"
proof (cases "map_of (roomMembers s) rid")
  case None
  then show ?thesis by (auto simp: members_of_def leave_room_def Let_def)
next
  case (Some us)
  have "AList.delete sid us = [] \<Longrightarrow> fst ` set us - {sid} = {}"
    using keys_delete [of sid us] by simp
  then show ?thesis using Some
    by (auto simp: members_of_def leave_room_def Let_def AList.update_conv' AList.delete_conv'
        keys_delete)
qed

lemma adapterRooms_leave_room:
  "adapterRooms (fst (leave_room s sid rid uid)) r
     = (if r = rid then adapterRooms s r - {sid} else adapterRooms s r)"
  by (simp add: leave_room_def Let_def)

lemma leave_room_groups_ok:
  assumes "groups_ok s"
  shows "groups_ok (fst (leave_room s sid rid uid))"
  using assms unfolding groups_ok_def members_of_leave_room adapterRooms_leave_room by auto

lemma members_of_disconnect:
  assumes "distinct (map fst (roomMembers s))"
  shows "members_of (fst (disconnect s sid)) r = members_of s r - {sid}"
proof -
  have e: "AList.delete sid us = [] \<Longrightarrow> fst ` set us - {sid} = {}" for us :: roomUsers
    using keys_delete [of sid us] by simp
  show ?thesis using e
    by (auto simp: members_of_def disconnect_rooms [OF assms] map_of_purge [OF assms] keys_delete
        split: option.splits)
qed

lemma disconnect_groups_ok:
  assumes "groups_ok s" "distinct (map fst (roomMembers s))"
  shows "groups_ok (fst (disconnect s sid))"
  using assms(1) unfolding groups_ok_def members_of_disconnect [OF assms(2)] disconnect_adapter
  by auto

lemma connection_groups_ok:
  assumes "groups_ok s"
  shows "groups_ok (fst (connection s sid))"
  using assms unfolding groups_ok_def by (auto simp: connection_def members_of_def)

lemma hub_inv_step: "hub_inv s \<Longrightarrow> hub_inv (fst (hub_step s e))"
proof (cases e)
  case (Connect sid)
  assume "hub_inv s"
  then have r: "registry_ok (roomMembers s)" and g: "groups_ok s" by (simp_all add: hub_inv_def)
  have "roomMembers (fst (connection s sid :: hub \<times> 'a emission list)) = roomMembers s"
    by (simp add: connection_def)
  with r have "registry_ok (roomMembers (fst (connection s sid :: hub \<times> 'a emission list)))"
    by simp
  then show ?thesis unfolding hub_inv_def Connect hub_step.simps
    by (intro conjI connection_groups_ok g)
next
  case (Disconnect sid)
  assume "hub_inv s"
  then have r: "registry_ok (roomMembers s)" and g: "groups_ok s" by (simp_all add: hub_inv_def)
  from r have d: "distinct (map fst (roomMembers s))" by (simp add: registry_ok_def)
  show ?thesis unfolding hub_inv_def Disconnect hub_step.simps
    by (intro conjI disconnect_registry_ok r disconnect_groups_ok g d)
qed (simp_all add: hub_inv_def join_room_registry_ok join_room_groups_ok
      leave_room_registry_ok leave_room_groups_ok relay_offer_def relay_answer_def
      relay_ice_candidate_def)

lemma hub_inv_init: "hub_inv hub_init"
  by (simp add: hub_inv_def hub_init_def registry_ok_def groups_ok_def members_of_def)

lemma hub_inv_run: "hub_inv s \<Longrightarrow> hub_inv (hub_run s es)"
  by (induction es arbitrary: s) (simp_all add: hub_inv_step)

text \<open>
  Claim C1. After every sequence of events processed by the Hub, started with an empty
  registry, every room present in the registry has pairwise distinct member keys and
  between 1 and 10 members: no room exceeds the capacity and no room with zero members
  is left in the registry between two events.
\<close>

theorem registry_rooms_between_1_and_10:
  "(rid, us) \<in> set (roomMembers (hub_run hub_init es)) \<Longrightarrow>
     distinct (map fst us) \<and> 1 \<le> length us \<and> length us \<le> 10"
proof -
  assume m: "(rid, us) \<in> set (roomMembers (hub_run hub_init es))"
  have "hub_inv (hub_run hub_init es)" by (rule hub_inv_run) (rule hub_inv_init)
  then have "registry_ok (roomMembers (hub_run hub_init es))" by (simp add: hub_inv_def)
  with m have "room_ok us" unfolding registry_ok_def by blast
  then show ?thesis by (simp add: room_ok_def MAX_ROOM_SIZE_def)
qed

lemma two_joins_then_leave:
  "roomMembers (hub_run hub_init (two_joins @ [LeaveRoom ''s1'' ''R1'' ''alice'']))
     = [(''R1'', [(''s2'', \<lparr>userId = ''bob'', socketId = ''s2'', peerId = ''p2''\<rparr>)])]"
  by (simp add: two_joins_def hub_init_def connection_def join_room_def leave_room_def Let_def
      MAX_ROOM_SIZE_def)

theorem registry_rooms_between_1_and_10_witness:
  "(''R1'', [(''s2'', \<lparr>userId = ''bob'', socketId = ''s2'', peerId = ''p2''\<rparr>)])
      \<in> set (roomMembers (hub_run hub_init (two_joins @ [LeaveRoom ''s1'' ''R1'' ''alice''])))
   \<and> distinct (map fst [(''s2'', \<lparr>userId = ''bob'', socketId = ''s2'', peerId = ''p2''\<rparr>)])
   \<and> 1 \<le> length [(''s2'', \<lparr>userId = ''bob'', socketId = ''s2'', peerId = ''p2''\<rparr>)]
   \<and> length [(''s2'', \<lparr>userId = ''bob'', socketId = ''s2'', peerId = ''p2''\<rparr>)] \<le> 10"
proof -
  have m: "(''R1'', [(''s2'', \<lparr>userId = ''bob'', socketId = ''s2'', peerId = ''p2''\<rparr>)])
      \<in> set (roomMembers (hub_run hub_init (two_joins @ [LeaveRoom ''s1'' ''R1'' ''alice''])))"
    by (simp add: two_joins_then_leave)
  from m registry_rooms_between_1_and_10 [OF m] show ?thesis by blast
qed

text \<open>
  Claim C2. When the room already has 10 members, a join attempt sends one event, the
  error with message "Room is full", to the joining socket alone, and returns the Hub
  state as it was: registry and broadcast groups are unchanged, so no member is inserted,
  and there is neither a room-joined nor a user-joined event.
\<close>

theorem join_full_room_rejected:
  "map_of (roomMembers s) rid = Some us \<Longrightarrow> length us = 10 \<Longrightarrow>
     join_room s sid rid uid pid
       = (s, [\<lparr>target = ToSocket sid, recipients = {sid}, msg = ErrorMsg ''Room is full''\<rparr>])"
  by (simp add: join_room_def Let_def MAX_ROOM_SIZE_def socket_emit_def)

theorem join_full_room_rejected_witness:
  "map_of (roomMembers full_room_hub) ''R2'' = Some example_members
   \<and> length example_members = 10
   \<and> map_of example_members ''k'' = None
   \<and> (join_room full_room_hub ''k'' ''R2'' ''kim'' ''pk'' :: hub \<times> nat emission list)
       = (full_room_hub,
          [\<lparr>target = ToSocket ''k'', recipients = {''k''}, msg = ErrorMsg ''Room is full''\<rparr>])"
proof -
  have a: "map_of (roomMembers full_room_hub) ''R2'' = Some example_members"
    by (simp add: full_room_hub_def)
  have b: "length example_members = 10" by (simp add: example_members_def)
  have c: "map_of example_members ''k'' = None" by (simp add: example_members_def)
  from a b c join_full_room_rejected [OF a b] show ?thesis by blast
qed

subsection \<open>Relaying\<close>






subsection \<open>Disconnect and leave\<close>

lemma count_key:
  "distinct (map fst al) \<Longrightarrow>
   length (filter (\<lambda>r. fst r = k \<and> P (snd r)) al)
     = (case map_of al k of None \<Rightarrow> 0 | Some v \<Rightarrow> if P v then 1 else 0)"
proof (induction al)
  case Nil
  then show ?case by simp
next
  case (Cons a al)
  then have ih: "length (filter (\<lambda>r. fst r = k \<and> P (snd r)) al)
     = (case map_of al k of None \<Rightarrow> 0 | Some v \<Rightarrow> if P v then 1 else 0)" by simp
  show ?case
  proof (cases "fst a = k")
    case True
    with Cons.prems have "k \<notin> fst ` set al" by auto
    then have "map_of al k = None" by (simp add: map_of_eq_None_iff)
    with ih True show ?thesis by (cases a) auto
  next
    case False
    with ih show ?thesis by (cases a) auto
  qed
qed

lemma purge_no_socket: "(rid, us) \<in> set (purge sid rooms) \<Longrightarrow> map_of us sid = None"
  by (induction sid rooms rule: purge.induct)
     (auto simp: AList.delete_conv' split: if_splits)

text \<open>
  Claim C6. Processing the transport disconnect of a socket sends only user-left events
  that name the socket, exactly one addressed to each room that contained the socket and
  none to any other room; afterwards no room of the registry contains the socket, each
  room that contained nobody else is deleted, and every other room keeps its remaining
  members.
\<close>

theorem disconnect_one_user_left_per_room:
  fixes out :: "'p emission list"
  assumes "distinct (map fst (roomMembers s))" and "disconnect s sid = (s', out)"
  shows "(\<forall>e \<in> set out. \<exists>rid uid. target e = ToRoomExcept rid sid \<and> msg e = UserLeft uid sid)
       \<and> (\<forall>rid. length (filter (\<lambda>e. target e = ToRoomExcept rid sid) out)
                  = (case map_of (roomMembers s) rid of
                       None \<Rightarrow> 0
                     | Some us \<Rightarrow> if map_of us sid = None then 0 else 1))
       \<and> (\<forall>(rid, us) \<in> set (roomMembers s'). map_of us sid = None)
       \<and> (\<forall>rid. map_of (roomMembers s') rid
                  = (case map_of (roomMembers s) rid of
                       None \<Rightarrow> None
                     | Some us \<Rightarrow>
                         if map_of us sid \<noteq> None \<and> AList.delete sid us = [] then None
                         else Some (AList.delete sid us)))"
proof -
  from assms(2) have s': "s' = fst (disconnect s sid :: hub \<times> 'p emission list)"
    and out: "out = snd (disconnect s sid)" by simp_all
  have rooms: "roomMembers s' = purge sid (roomMembers s)"
    unfolding s' using assms(1) by (rule disconnect_rooms)
  have o: "out = map (left_on_disconnect s sid)
                  (filter (\<lambda>r. map_of (snd r) sid \<noteq> None) (roomMembers s))"
    unfolding out by (rule disconnect_out)
  have 1: "\<forall>e \<in> set out. \<exists>rid uid. target e = ToRoomExcept rid sid \<and> msg e = UserLeft uid sid"
    unfolding o by (auto simp: left_on_disconnect_def)
  have 2: "length (filter (\<lambda>e. target e = ToRoomExcept rid sid) out)
             = (case map_of (roomMembers s) rid of
                  None \<Rightarrow> 0 | Some us \<Rightarrow> if map_of us sid = None then 0 else 1)" for rid
  proof -
    have "length (filter (\<lambda>e. target e = ToRoomExcept rid sid) out)
            = length (filter (\<lambda>r. fst r = rid \<and> map_of (snd r) sid \<noteq> None) (roomMembers s))"
      unfolding o by (simp add: filter_map comp_def left_on_disconnect_def conj_commute)
    also have "\<dots> = (case map_of (roomMembers s) rid of
                  None \<Rightarrow> 0 | Some us \<Rightarrow> if map_of us sid \<noteq> None then 1 else 0)"
      using assms(1) by (rule count_key)
    finally show ?thesis by (simp split: option.splits)
  qed
  have 3: "\<forall>(rid, us) \<in> set (roomMembers s'). map_of us sid = None"
    unfolding rooms using purge_no_socket by blast
  have 4: "map_of (roomMembers s') rid
             = (case map_of (roomMembers s) rid of
                  None \<Rightarrow> None
                | Some us \<Rightarrow>
                    if map_of us sid \<noteq> None \<and> AList.delete sid us = [] then None
                    else Some (AList.delete sid us))" for rid
    unfolding rooms using assms(1) by (rule map_of_purge)
  from 1 2 3 4 show ?thesis by blast
qed

theorem disconnect_one_user_left_per_room_witness:
  "distinct (map fst (roomMembers three_rooms_hub))
   \<and> length (filter (\<lambda>e. target e = ToRoomExcept ''R1'' ''s1'')
                (snd (disconnect three_rooms_hub ''s1'' :: hub \<times> nat emission list))) = 1
   \<and> length (filter (\<lambda>e. target e = ToRoomExcept ''R2'' ''s1'')
                (snd (disconnect three_rooms_hub ''s1'' :: hub \<times> nat emission list))) = 1
   \<and> length (filter (\<lambda>e. target e = ToRoomExcept ''R3'' ''s1'')
                (snd (disconnect three_rooms_hub ''s1'' :: hub \<times> nat emission list))) = 0
   \<and> map_of (roomMembers (fst (disconnect three_rooms_hub ''s1'' :: hub \<times> nat emission list))) ''R1''
       = Some [(''s2'', \<lparr>userId = ''bob'', socketId = ''s2'', peerId = ''p2''\<rparr>)]
   \<and> map_of (roomMembers (fst (disconnect three_rooms_hub ''s1'' :: hub \<times> nat emission list))) ''R2''
       = None
   \<and> map_of (roomMembers (fst (disconnect three_rooms_hub ''s1'' :: hub \<times> nat emission list))) ''R3''
       = Some [(''s3'', \<lparr>userId = ''carol'', socketId = ''s3'', peerId = ''p4''\<rparr>)]"
proof -
  let ?d = "disconnect three_rooms_hub ''s1'' :: hub \<times> nat emission list"
  have d: "distinct (map fst (roomMembers three_rooms_hub))"
    by (simp add: three_rooms_hub_def)
  have e: "?d = (fst ?d, snd ?d)" by simp
  note t = disconnect_one_user_left_per_room [OF d e]
  from t have c: "\<And>rid. length (filter (\<lambda>e. target e = ToRoomExcept rid ''s1'') (snd ?d))
                  = (case map_of (roomMembers three_rooms_hub) rid of
                       None \<Rightarrow> 0
                     | Some us \<Rightarrow> if map_of us ''s1'' = None then 0 else 1)"
    by blast
  from t have m: "\<And>rid. map_of (roomMembers (fst ?d)) rid
                  = (case map_of (roomMembers three_rooms_hub) rid of
                       None \<Rightarrow> None
                     | Some us \<Rightarrow>
                         if map_of us ''s1'' \<noteq> None \<and> AList.delete ''s1'' us = [] then None
                         else Some (AList.delete ''s1'' us))"
    by blast
  show ?thesis unfolding c m using d by (simp add: three_rooms_hub_def)
qed

text \<open>
  Claim C4, evaluated on the code. Two sockets join room R1, the first leaves, and then
  sends leave-room once more. The second leave changes nothing in the registry, and it
  sends user-left again: the remaining member receives a second user-left event for the
  socket that had already left.
\<close>

theorem second_leave_broadcasts_again:
  "roomMembers (fst (leave_room
       (fst (leave_room (hub_run hub_init two_joins) ''s1'' ''R1'' ''alice''
              :: hub \<times> nat emission list))
       ''s1'' ''R1'' ''alice'' :: hub \<times> nat emission list))
     = roomMembers (fst (leave_room (hub_run hub_init two_joins) ''s1'' ''R1'' ''alice''
              :: hub \<times> nat emission list))
   \<and> snd (leave_room
       (fst (leave_room (hub_run hub_init two_joins) ''s1'' ''R1'' ''alice''
              :: hub \<times> nat emission list))
       ''s1'' ''R1'' ''alice'' :: hub \<times> nat emission list)
     = [\<lparr>target = ToRoomExcept ''R1'' ''s1'', recipients = {''s2''},
          msg = UserLeft ''alice'' ''s1''\<rparr>]"
  by (simp add: two_joins_def hub_init_def connection_def join_room_def leave_room_def Let_def
      MAX_ROOM_SIZE_def socket_to_emit_def insert_Diff_if)

subsection \<open>Negotiation on the client\<close>

lemma new_peer_fresh:
  "signalingState (peerConnection (new_peer c uid pid sid isInit)) = Stable
   \<and> iceConnectionState (peerConnection (new_peer c uid pid sid isInit)) = IceNew"
  by (simp add: new_peer_def new_RTCPeerConnection_def)

lemma createPeerConnection_offers_on_new_connection:
  assumes "map_of (remotePeers c) sid = None"
  shows "\<exists>c1 peer. iceConnectionState (peerConnection peer) = IceNew
           \<and> signalingState (peerConnection peer) = Stable
           \<and> createPeerConnection c uid pid sid True offerResult setLocalResult
               = (case createOffer c1 peer offerResult setLocalResult of
                    (c2, peer') \<Rightarrow> c2\<lparr>remotePeers := AList.update sid peer' (remotePeers c2)\<rparr>)"
proof -
  let ?c0 = "console Log [''Creating peer connection for '' @ uid @ '' (initiator: ''
                             @ ''true'' @ '')''] c"
  let ?peer = "new_peer ?c0 uid pid sid True"
  let ?c1 = "?c0\<lparr>remotePeers := AList.update sid ?peer (remotePeers ?c0)\<rparr>"
  have "createPeerConnection c uid pid sid True offerResult setLocalResult
               = (case createOffer ?c1 ?peer offerResult setLocalResult of
                    (c2, peer') \<Rightarrow> c2\<lparr>remotePeers := AList.update sid peer' (remotePeers c2)\<rparr>)"
    using assms by (simp add: createPeerConnection_def Let_def)
  with new_peer_fresh [of ?c0 uid pid sid True] show ?thesis by blast
qed

lemma createOffer_negotiating:
  assumes "remoteSocketId peer \<in> isNegotiating c"
  shows "createOffer c peer offerResult setLocalResult
           = (console Log [''Already negotiating with:'', remoteUserId peer] c, peer)"
  using assms by (simp add: createOffer_def createOffer_begin_def)

lemma createOffer_not_stable:
  assumes "remoteSocketId peer \<notin> isNegotiating c"
    and "\<not> (signalingState (peerConnection peer) = Stable
            \<and> iceConnectionState (peerConnection peer) = IceNew)"
  shows "createOffer c peer offerResult setLocalResult = (c, peer)"
  using assms
  by (cases c) (auto simp: createOffer_def createOffer_begin_def createOffer_finally_def Let_def)

lemma createOffer_begin_go:
  assumes "remoteSocketId peer \<notin> isNegotiating c"
    and "signalingState (peerConnection peer) = Stable"
    and "iceConnectionState (peerConnection peer) = IceNew"
  shows "createOffer_begin c peer
           = (c\<lparr>isNegotiating := insert (remoteSocketId peer) (isNegotiating c)\<rparr>,
              peer\<lparr>peerConnection :=
                     (peerConnection peer)\<lparr>calls := calls (peerConnection peer) @ [CreateOffer]\<rparr>\<rparr>,
              AwaitCreateOffer)"
  using assms by (simp add: createOffer_begin_def Let_def)

lemma createOffer_resolved_resolved:
  assumes "remoteSocketId peer \<notin> isNegotiating c"
    and "signalingState (peerConnection peer) = Stable"
    and "iceConnectionState (peerConnection peer) = IceNew"
  shows "createOffer c peer (Resolved offer) (Resolved st)
           = ((if socket c
               then console Log [''Sent offer to '' @ remoteUserId peer]
                      (c\<lparr>effects := effects c @ [EmitOffer (roomId c) offer (remotePeerId peer)]\<rparr>)
               else c),
              peer\<lparr>peerConnection :=
                     (peerConnection peer)\<lparr>calls := calls (peerConnection peer)
                                                 @ [CreateOffer, SetLocalDescription offer],
                                            signalingState := st\<rparr>\<rparr>)"
  unfolding createOffer_def createOffer_begin_go [OF assms]
  using assms(1)
  by (cases c) (simp add: createOffer_offered_def createOffer_applied_def
      createOffer_finally_def console_def Let_def)

lemma createOffer_rejected:
  assumes "remoteSocketId peer \<notin> isNegotiating c"
    and "signalingState (peerConnection peer) = Stable"
    and "iceConnectionState (peerConnection peer) = IceNew"
  shows "createOffer c peer (Rejected m) setLocalResult
           = (console Error [''Error creating offer for '' @ remoteUserId peer @ '':''] c,
              peer\<lparr>peerConnection :=
                     (peerConnection peer)\<lparr>calls := calls (peerConnection peer)
                                                 @ [CreateOffer]\<rparr>\<rparr>)"
  unfolding createOffer_def createOffer_begin_go [OF assms]
  using assms(1)
  by (cases c) (simp add: createOffer_offered_def createOffer_catch_def
      createOffer_finally_def console_def Let_def)

lemma createOffer_resolved_rejected:
  assumes "remoteSocketId peer \<notin> isNegotiating c"
    and "signalingState (peerConnection peer) = Stable"
    and "iceConnectionState (peerConnection peer) = IceNew"
  shows "createOffer c peer (Resolved offer) (Rejected m)
           = (console Error [''Error creating offer for '' @ remoteUserId peer @ '':''] c,
              peer\<lparr>peerConnection :=
                     (peerConnection peer)\<lparr>calls := calls (peerConnection peer)
                                                 @ [CreateOffer, SetLocalDescription offer]\<rparr>\<rparr>)"
  unfolding createOffer_def createOffer_begin_go [OF assms]
  using assms(1)
  by (cases c) (simp add: createOffer_offered_def createOffer_applied_def createOffer_catch_def
      createOffer_finally_def console_def Let_def)

lemma createOffer_go:
  assumes "remoteSocketId peer \<notin> isNegotiating c"
    and "signalingState (peerConnection peer) = Stable"
    and "iceConnectionState (peerConnection peer) = IceNew"
    and "createOffer c peer offerResult setLocalResult = (c', peer')"
  shows "calls (peerConnection peer')
           = calls (peerConnection peer)
             @ CreateOffer # (case offerResult of
                                Resolved offer \<Rightarrow> [SetLocalDescription offer]
                              | Rejected m \<Rightarrow> [])
       \<and> offers_sent c'
           = offers_sent c
             @ (case (offerResult, setLocalResult) of
                  (Resolved offer, Resolved st) \<Rightarrow>
                    if socket c then [EmitOffer (roomId c) offer (remotePeerId peer)] else []
                | _ \<Rightarrow> [])
       \<and> isNegotiating c' = isNegotiating c"
proof (cases offerResult)
  case (Rejected m)
  from assms(4) show ?thesis
    unfolding Rejected createOffer_rejected [OF assms(1-3)]
    by (auto simp: console_def offers_sent_def)
next
  case (Resolved offer)
  show ?thesis
  proof (cases setLocalResult)
    case (Rejected m)
    from assms(4) show ?thesis
      unfolding Resolved Rejected createOffer_resolved_rejected [OF assms(1-3)]
      by (auto simp: console_def offers_sent_def)
  next
    case inner: (Resolved st)
    from assms(4) show ?thesis
      unfolding Resolved inner createOffer_resolved_resolved [OF assms(1-3)]
      by (auto simp: console_def offers_sent_def)
  qed
qed

text \<open>
  Claim C3. \<^verbatim>\<open>createOffer\<close> is private, and its only call, in
  \<^verbatim>\<open>createPeerConnection\<close>, hands it a connection made in the same run, whose ICE
  connection state is new (lemma \<open>createPeerConnection_offers_on_new_connection\<close>). For
  such a session: when the negotiating flag is already set, createOffer returns after a
  console line, with the engine, the flag and the socket untouched. Otherwise it asks the
  engine for an offer exactly when the signaling state is stable; it then holds the flag
  while it waits for the offer and while it waits for the local description, applies the
  offer locally when the engine produced one, and sends it, with \<open>targetPeerId\<close> equal
  to the session's \<open>remotePeerId\<close>, when the local description was set and the socket
  exists. When the call completes, after success or failure, the flag is clear again.
\<close>

theorem createOffer_guarded:
  assumes "iceConnectionState (peerConnection peer) = IceNew"
    and "createOffer c peer offerResult setLocalResult = (c', peer')"
  shows "(remoteSocketId peer \<in> isNegotiating c
            \<longrightarrow> createOffer_begin c peer
                  = (console Log [''Already negotiating with:'', remoteUserId peer] c, peer,
                     OfferDone)
                \<and> peer' = peer \<and> isNegotiating c' = isNegotiating c
                \<and> offers_sent c' = offers_sent c)
       \<and> (remoteSocketId peer \<notin> isNegotiating c
              \<and> signalingState (peerConnection peer) = Stable
            \<longrightarrow> snd (snd (createOffer_begin c peer)) = AwaitCreateOffer
                \<and> remoteSocketId peer \<in> isNegotiating (fst (createOffer_begin c peer))
                \<and> (\<forall>offer. snd (snd (createOffer_offered (fst (createOffer_begin c peer))
                                        (fst (snd (createOffer_begin c peer))) (Resolved offer)))
                              = AwaitSetLocalDescription offer
                            \<and> remoteSocketId peer
                                \<in> isNegotiating
                                    (fst (createOffer_offered (fst (createOffer_begin c peer))
                                           (fst (snd (createOffer_begin c peer)))
                                           (Resolved offer)))))
       \<and> calls (peerConnection peer')
           = calls (peerConnection peer)
             @ (if remoteSocketId peer \<notin> isNegotiating c
                   \<and> signalingState (peerConnection peer) = Stable
                then CreateOffer # (case offerResult of
                                      Resolved offer \<Rightarrow> [SetLocalDescription offer]
                                    | Rejected m \<Rightarrow> [])
                else [])
       \<and> offers_sent c'
           = offers_sent c
             @ (case (offerResult, setLocalResult) of
                  (Resolved offer, Resolved st) \<Rightarrow>
                    if remoteSocketId peer \<notin> isNegotiating c
                       \<and> signalingState (peerConnection peer) = Stable
                       \<and> socket c
                    then [EmitOffer (roomId c) offer (remotePeerId peer)] else []
                | _ \<Rightarrow> [])
       \<and> (remoteSocketId peer \<notin> isNegotiating c
            \<longrightarrow> remoteSocketId peer \<notin> isNegotiating c')"
proof (cases "remoteSocketId peer \<in> isNegotiating c")
  case True
  from assms(2) have "c' = console Log [''Already negotiating with:'', remoteUserId peer] c"
    and "peer' = peer"
    unfolding createOffer_negotiating [OF True] by auto
  with True show ?thesis
    by (auto simp: createOffer_begin_def console_def offers_sent_def split: settled.splits)
next
  case False
  show ?thesis
  proof (cases "signalingState (peerConnection peer) = Stable")
    case stable: True
    note b = createOffer_begin_go [OF False stable assms(1)]
    note g = createOffer_go [OF False stable assms(1) assms(2)]
    have w: "\<forall>offer. snd (snd (createOffer_offered (fst (createOffer_begin c peer))
                                        (fst (snd (createOffer_begin c peer))) (Resolved offer)))
                              = AwaitSetLocalDescription offer
                            \<and> remoteSocketId peer
                                \<in> isNegotiating
                                    (fst (createOffer_offered (fst (createOffer_begin c peer))
                                           (fst (snd (createOffer_begin c peer)))
                                           (Resolved offer)))"
      unfolding b by (simp add: createOffer_offered_def Let_def)
    have h: "snd (snd (createOffer_begin c peer)) = AwaitCreateOffer
                \<and> remoteSocketId peer \<in> isNegotiating (fst (createOffer_begin c peer))"
      unfolding b by simp
    from g h w False stable show ?thesis by (simp split: settled.splits)
  next
    case unstable: False
    then have "\<not> (signalingState (peerConnection peer) = Stable
            \<and> iceConnectionState (peerConnection peer) = IceNew)" by simp
    from createOffer_not_stable [OF False this] assms(2) have "c' = c" "peer' = peer"
      by simp_all
    with False unstable show ?thesis by (auto split: settled.splits)
  qed
qed

theorem createOffer_guarded_witness:
  "iceConnectionState (peerConnection example_peer) = IceNew
   \<and> signalingState (peerConnection example_peer) = Stable
   \<and> ''s2'' \<in> isNegotiating (fst (createOffer_begin example_client example_peer))
   \<and> calls (peerConnection (snd (createOffer example_client example_peer
        (Resolved ''sdp'') (Resolved HaveLocalOffer))))
     = [CreateOffer, SetLocalDescription ''sdp'']
   \<and> offers_sent (fst (createOffer example_client example_peer
        (Resolved ''sdp'') (Resolved HaveLocalOffer)))
     = [EmitOffer ''R1'' ''sdp'' ''p2'']
   \<and> ''s2'' \<notin> isNegotiating (fst (createOffer example_client example_peer
        (Resolved ''sdp'') (Resolved HaveLocalOffer)))"
proof -
  let ?r = "createOffer example_client example_peer (Resolved ''sdp'') (Resolved HaveLocalOffer)"
  have i: "iceConnectionState (peerConnection example_peer) = IceNew"
    by (simp add: example_peer_def example_engine_def)
  have e: "?r = (fst ?r, snd ?r)" by simp
  show ?thesis using i createOffer_guarded [OF i e]
    by (simp add: example_client_def example_peer_def example_engine_def offers_sent_def)
qed

lemma errors_reported_console [simp]:
  "errors_reported (console l args c) = errors_reported c"
  by (simp add: console_def errors_reported_def)

lemma handleAnswer_catch_errors:
  "errors_reported (handleAnswer_catch c peer m)
     = errors_reported c
       @ (if onErrorCallback c
             \<and> \<not> (case m of None \<Rightarrow> False | Some t \<Rightarrow> str_includes t ''stable'')
          then [OnError (''Error handling answer: '' @ message_text m)] else [])"
  by (simp add: handleAnswer_catch_def Let_def console_def errors_reported_def)

lemma handleAnswer_catch_rest:
  "handleAnswer_catch c peer m = c\<lparr>effects := effects (handleAnswer_catch c peer m)\<rparr>"
  by (simp add: handleAnswer_catch_def Let_def console_def)

text \<open>
  Claim C7 as stated fails. The session below is in have-local-offer, so the answer is
  applied; the engine rejects it because its state had moved on to have-remote-offer,
  with a message that does not include \<^verbatim>\<open>stable\<close>, and this error of conflicting
  negotiation state is handed to \<^verbatim>\<open>onErrorCallback\<close>.
\<close>

theorem handleAnswer_reports_state_conflict:
  "signalingState (peerConnection offering_peer) = HaveLocalOffer
   \<and> onErrorCallback example_client
   \<and> errors_reported example_client = []
   \<and> errors_reported
        (fst (handleAnswer example_client offering_peer ''answer-sdp'' (Resolved ())
                (Rejected (Some ''Called in wrong state: have-remote-offer''))))
       = [OnError ''Error handling answer: Called in wrong state: have-remote-offer'']"
  by (simp add: handleAnswer_def handleAnswer_catch_def Let_def console_def
      errors_reported_def offering_peer_def example_peer_def example_engine_def
      example_client_def message_text_def)

text \<open>
  Claim C7, amended. handleAnswer hands the answer to the engine's setRemoteDescription
  only when the session's signaling state is have-local-offer, and there whenever the
  description object can be built. In every other state the session is left as it was,
  one console warning is written and nothing is reported. When building the description
  or applying it fails, the error is reported to \<^verbatim>\<open>onErrorCallback\<close>, if one is
  registered, unless its message includes \<^verbatim>\<open>stable\<close>; nothing else is ever reported,
  and apart from the effects written the client is unchanged.
\<close>

theorem handleAnswer_only_in_have_local_offer:
  assumes "handleAnswer c peer answer newResult setRemoteResult = (c', peer')"
  shows "calls (peerConnection peer')
           = calls (peerConnection peer)
             @ (if signalingState (peerConnection peer) = HaveLocalOffer
                   \<and> newResult = Resolved ()
                then [SetRemoteDescription answer] else [])
       \<and> (signalingState (peerConnection peer) \<noteq> HaveLocalOffer
            \<longrightarrow> peer' = peer
                \<and> effects c'
                    = effects c
                      @ [Console Warn [''Cannot handle answer from '' @ remoteUserId peer
                           @ '', signaling state: ''
                           @ signalingState_name (signalingState (peerConnection peer))]])
       \<and> errors_reported c'
           = errors_reported c
             @ (if signalingState (peerConnection peer) = HaveLocalOffer \<and> onErrorCallback c
                then (case newResult of
                        Rejected m \<Rightarrow>
                          if (case m of None \<Rightarrow> False | Some t \<Rightarrow> str_includes t ''stable'')
                          then [] else [OnError (''Error handling answer: '' @ message_text m)]
                      | Resolved u \<Rightarrow>
                          (case setRemoteResult of
                             Rejected m \<Rightarrow>
                               if (case m of None \<Rightarrow> False
                                   | Some t \<Rightarrow> str_includes t ''stable'')
                               then []
                               else [OnError (''Error handling answer: '' @ message_text m)]
                           | Resolved st \<Rightarrow> []))
                else [])
       \<and> c' = c\<lparr>effects := effects c'\<rparr>"
proof (cases "signalingState (peerConnection peer) = HaveLocalOffer")
  case False
  with assms show ?thesis
    by (auto simp: handleAnswer_def Let_def console_def errors_reported_def)
next
  case True
  show ?thesis
  proof (cases newResult)
    case (Rejected m)
    with assms True have c': "c' = handleAnswer_catch c peer m" and p': "peer' = peer"
      by (auto simp: handleAnswer_def Let_def)
    show ?thesis unfolding c' p' handleAnswer_catch_errors
      using True Rejected handleAnswer_catch_rest [of c peer m] by simp
  next
    case (Resolved u)
    show ?thesis
    proof (cases setRemoteResult)
      case (Rejected m)
      with assms True Resolved have c': "c' = handleAnswer_catch c peer m"
        and p': "peer' = peer\<lparr>peerConnection :=
                     (peerConnection peer)\<lparr>calls := calls (peerConnection peer)
                                                 @ [SetRemoteDescription answer]\<rparr>\<rparr>"
        by (auto simp: handleAnswer_def Let_def)
      show ?thesis unfolding c' p' handleAnswer_catch_errors
        using True Resolved Rejected handleAnswer_catch_rest [of c peer m] by simp
    next
      case inner: (Resolved st)
      with assms True Resolved
      have c': "c' = console Log [''Set remote description from '' @ remoteUserId peer] c"
        and p': "peer' = peer\<lparr>peerConnection :=
                     (peerConnection peer)\<lparr>calls := calls (peerConnection peer)
                                                 @ [SetRemoteDescription answer],
                                            signalingState := st\<rparr>\<rparr>"
        by (auto simp: handleAnswer_def Let_def)
      show ?thesis unfolding c' p'
        using True Resolved inner by (simp add: console_def errors_reported_def)
    qed
  qed
qed

theorem handleAnswer_only_in_have_local_offer_witness:
  "signalingState (peerConnection example_peer) \<noteq> HaveLocalOffer
   \<and> snd (handleAnswer example_client example_peer ''answer-sdp'' (Resolved ())
            (Resolved Stable)) = example_peer
   \<and> effects (fst (handleAnswer example_client example_peer ''answer-sdp'' (Resolved ())
                     (Resolved Stable)))
       = [Console Warn [''Cannot handle answer from bob, signaling state: stable'']]
   \<and> errors_reported (fst (handleAnswer example_client example_peer ''answer-sdp''
                             (Resolved ()) (Resolved Stable))) = []
   \<and> calls (peerConnection (snd (handleAnswer example_client offering_peer ''answer-sdp''
                                    (Resolved ()) (Resolved Stable))))
       = [SetRemoteDescription ''answer-sdp'']
   \<and> errors_reported (fst (handleAnswer example_client offering_peer ''answer-sdp''
                             (Resolved ()) (Resolved Stable))) = []
   \<and> calls (peerConnection (snd (handleAnswer example_client offering_peer ''answer-sdp''
                                    (Rejected None) (Resolved Stable))))
       = []
   \<and> errors_reported (fst (handleAnswer example_client offering_peer ''answer-sdp''
                             (Rejected None) (Resolved Stable)))
       = [OnError ''Error handling answer: undefined'']"
proof -
  let ?a = "handleAnswer example_client example_peer ''answer-sdp'' (Resolved ()) (Resolved Stable)"
  let ?b = "handleAnswer example_client offering_peer ''answer-sdp'' (Resolved ()) (Resolved Stable)"
  let ?c = "handleAnswer example_client offering_peer ''answer-sdp'' (Rejected None) (Resolved Stable)"
  have ea: "?a = (fst ?a, snd ?a)" and eb: "?b = (fst ?b, snd ?b)" and ec: "?c = (fst ?c, snd ?c)"
    by simp_all
  have st: "signalingState (peerConnection example_peer) = Stable"
    by (simp add: example_peer_def example_engine_def)
  then have n: "signalingState (peerConnection example_peer) \<noteq> HaveLocalOffer" by simp
  have o: "signalingState (peerConnection offering_peer) = HaveLocalOffer"
    by (simp add: offering_peer_def example_peer_def example_engine_def)
  have x: "errors_reported example_client = []" "onErrorCallback example_client"
    "effects example_client = []"
    by (simp_all add: example_client_def errors_reported_def)
  have y: "calls (peerConnection offering_peer) = []" "remoteUserId example_peer = ''bob''"
    by (simp_all add: offering_peer_def example_peer_def example_engine_def)
  have 1: "snd ?a = example_peer
           \<and> effects (fst ?a)
               = [Console Warn [''Cannot handle answer from bob, signaling state: stable'']]
           \<and> errors_reported (fst ?a) = []"
    using handleAnswer_only_in_have_local_offer [OF ea] st x y
    by (simp add: signalingState_name_def)
  have 2: "calls (peerConnection (snd ?b)) = [SetRemoteDescription ''answer-sdp'']
           \<and> errors_reported (fst ?b) = []"
    using handleAnswer_only_in_have_local_offer [OF eb] o x y by simp
  have 3: "calls (peerConnection (snd ?c)) = []
           \<and> errors_reported (fst ?c) = [OnError ''Error handling answer: undefined'']"
    using handleAnswer_only_in_have_local_offer [OF ec] o x y
    by (simp add: message_text_def)
  from n 1 2 3 show ?thesis by simp
qed

subsection \<open>Sessions of the client\<close>

lemma find_append_first:
  "\<forall>x \<in> set xs. \<not> P x \<Longrightarrow> P y \<Longrightarrow> find P (xs @ y # ys) = Some y"
  by (induction xs) auto

lemma find_none: "\<forall>x \<in> set xs. \<not> P x \<Longrightarrow> find P xs = None"
  by (induction xs) auto

lemma length_delete_distinct:
  "distinct (map fst al) \<Longrightarrow> length al \<le> Suc (length (AList.delete k al))"
  by (induction al) (auto simp: rev_image_eqI)

lemma removePeerConnection_length:
  "distinct (map fst (remotePeers c)) \<Longrightarrow>
   length (remotePeers c) \<le> Suc (length (remotePeers (removePeerConnection c uid)))"
  by (auto simp: removePeerConnection_def console_def length_delete_distinct
      split: option.splits)

lemma no_close_in_stops:
  "filter (\<lambda>e. case e of ClosePeerConnection k \<Rightarrow> True | _ \<Rightarrow> False) (map StopTrack ts) = []"
  by (induction ts) simp_all

lemma removePeerConnection_first:
  assumes "wf_peers (remotePeers c)" and "remotePeers c = pre @ (k, p) # post"
    and "\<forall>q \<in> snd ` set pre. remoteUserId q \<noteq> uid" and "remoteUserId p = uid"
  shows "remotePeers (removePeerConnection c uid) = pre @ post"
    and "connections_closed (removePeerConnection c uid)
           = connections_closed c @ [ClosePeerConnection k]"
proof -
  have f: "find (\<lambda>p. remoteUserId p = uid) (map snd (remotePeers c)) = Some p"
    unfolding assms(2) using assms(3,4)
    by (simp add: find_append_first [where P = "\<lambda>p. remoteUserId p = uid"])
  from assms(1,2) have k: "remoteSocketId p = k" by (auto simp: wf_peers_def)
  from assms(1,2) have "k \<notin> fst ` set pre" "k \<notin> fst ` set post"
    by (auto simp: wf_peers_def)
  then have "AList.delete k (pre @ (k, p) # post) = pre @ post" by (rule delete_mid)
  with f k show "remotePeers (removePeerConnection c uid) = pre @ post"
    by (simp add: removePeerConnection_def console_def assms(2))
  from f k show "connections_closed (removePeerConnection c uid)
           = connections_closed c @ [ClosePeerConnection k]"
    by (simp add: removePeerConnection_def console_def connections_closed_def
        no_close_in_stops split: option.splits)
qed

lemma on_user_left_closed:
  "connections_closed (on_user_left c uid sid)
     = connections_closed (removePeerConnection (console Log [''User left:'', uid] c) uid)"
  by (simp add: on_user_left_def Let_def connections_closed_def)

lemma console_closed: "connections_closed (console l args c) = connections_closed c"
  by (simp add: console_def connections_closed_def)

lemma removePeerConnection_none:
  "\<forall>q \<in> snd ` set (remotePeers c). remoteUserId q \<noteq> uid \<Longrightarrow> removePeerConnection c uid = c"
  by (simp add: removePeerConnection_def find_none)

text \<open>
  Claim C8. On a user-left event the client closes and removes at most one session.
  Nothing in the outcome depends on the socketId the event carries. The session closed
  and removed is the first one in the map whose remoteUserId is the event's userId,
  whatever its socketId; when no session has that userId, no session is closed or
  removed. So with two sessions of the same user, an event that names the later socket
  removes the earlier session, as in the example after the theorem.
\<close>

theorem user_left_removes_first_session_of_user:
  assumes "wf_peers (remotePeers c)"
  shows "on_user_left c uid sid = on_user_left c uid sid'
       \<and> length (remotePeers c) \<le> Suc (length (remotePeers (on_user_left c uid sid)))
       \<and> (\<forall>pre k p post.
             remotePeers c = pre @ (k, p) # post
             \<and> (\<forall>q \<in> snd ` set pre. remoteUserId q \<noteq> uid) \<and> remoteUserId p = uid
             \<longrightarrow> remotePeers (on_user_left c uid sid) = pre @ post
                 \<and> connections_closed (on_user_left c uid sid)
                     = connections_closed c @ [ClosePeerConnection k])
       \<and> ((\<forall>q \<in> snd ` set (remotePeers c). remoteUserId q \<noteq> uid)
             \<longrightarrow> remotePeers (on_user_left c uid sid) = remotePeers c
                 \<and> connections_closed (on_user_left c uid sid) = connections_closed c)"
proof -
  let ?c1 = "console Log [''User left:'', uid] c"
  have r: "remotePeers ?c1 = remotePeers c" by (simp add: console_def)
  have o: "remotePeers (on_user_left c uid sid) = remotePeers (removePeerConnection ?c1 uid)"
    by (simp add: on_user_left_def Let_def)
  note oc = on_user_left_closed [of c uid sid]
  have wf: "wf_peers (remotePeers ?c1)" using assms r by simp
  have 1: "on_user_left c uid sid = on_user_left c uid sid'" by (simp add: on_user_left_def)
  have 2: "length (remotePeers c) \<le> Suc (length (remotePeers (on_user_left c uid sid)))"
    unfolding o using removePeerConnection_length [of ?c1 uid] assms r
    by (simp add: wf_peers_def)
  have 3: "remotePeers (on_user_left c uid sid) = pre @ post
           \<and> connections_closed (on_user_left c uid sid)
               = connections_closed c @ [ClosePeerConnection k]"
    if "remotePeers c = pre @ (k, p) # post"
      "\<forall>q \<in> snd ` set pre. remoteUserId q \<noteq> uid" "remoteUserId p = uid" for pre k p post
  proof -
    have a: "remotePeers ?c1 = pre @ (k, p) # post" by (simp add: r that(1))
    show ?thesis unfolding o oc
      using removePeerConnection_first [OF wf a that(2,3)] by (simp add: console_closed)
  qed
  have 4: "remotePeers (on_user_left c uid sid) = remotePeers c
           \<and> connections_closed (on_user_left c uid sid) = connections_closed c"
    if "\<forall>q \<in> snd ` set (remotePeers c). remoteUserId q \<noteq> uid"
    unfolding o oc using removePeerConnection_none [of ?c1 uid] that r
    by (simp add: console_closed)
  from 1 2 3 4 show ?thesis by blast
qed

theorem user_left_removes_first_session_of_user_witness:
  "wf_peers (remotePeers two_bobs_client)
   \<and> map fst (remotePeers two_bobs_client) = [''s1'', ''s2'', ''s3'']
   \<and> map (remoteUserId \<circ> snd) (remotePeers two_bobs_client) = [''alice'', ''bob'', ''bob'']
   \<and> map fst (remotePeers (on_user_left two_bobs_client ''bob'' ''s3'')) = [''s1'', ''s3'']
   \<and> connections_closed (on_user_left two_bobs_client ''bob'' ''s3'')
       = [ClosePeerConnection ''s2'']
   \<and> remotePeers (on_user_left two_bobs_client ''carol'' ''s4'') = remotePeers two_bobs_client"
proof -
  have wf: "wf_peers (remotePeers two_bobs_client)"
    by (simp add: wf_peers_def two_bobs_client_def example_peer_def)
  note t = user_left_removes_first_session_of_user [OF wf]
  have a: "remotePeers two_bobs_client
             = [(''s1'', example_peer\<lparr>remoteUserId := ''alice'', remotePeerId := ''p1'',
                                     remoteSocketId := ''s1''\<rparr>)]
               @ (''s2'', example_peer)
               # [(''s3'', example_peer\<lparr>remotePeerId := ''p3'', remoteSocketId := ''s3''\<rparr>)]"
    by (simp add: two_bobs_client_def)
  have "remotePeers (on_user_left two_bobs_client ''bob'' ''s3'')
          = [(''s1'', example_peer\<lparr>remoteUserId := ''alice'', remotePeerId := ''p1'',
                                  remoteSocketId := ''s1''\<rparr>)]
            @ [(''s3'', example_peer\<lparr>remotePeerId := ''p3'', remoteSocketId := ''s3''\<rparr>)]
        \<and> connections_closed (on_user_left two_bobs_client ''bob'' ''s3'')
            = connections_closed two_bobs_client @ [ClosePeerConnection ''s2'']"
  proof -
    from t [of "''bob''" "''s3''" "''s3''"]
    have imp: "\<And>pre k p post. remotePeers two_bobs_client = pre @ (k, p) # post
        \<Longrightarrow> \<forall>q \<in> snd ` set pre. remoteUserId q \<noteq> ''bob'' \<Longrightarrow> remoteUserId p = ''bob''
        \<Longrightarrow> remotePeers (on_user_left two_bobs_client ''bob'' ''s3'') = pre @ post
            \<and> connections_closed (on_user_left two_bobs_client ''bob'' ''s3'')
                = connections_closed two_bobs_client @ [ClosePeerConnection k]"
      by blast
    show ?thesis by (rule imp [OF a]) (simp_all add: example_peer_def)
  qed
  moreover have "remotePeers (on_user_left two_bobs_client ''carol'' ''s4'')
                   = remotePeers two_bobs_client"
    using t [of "''carol''" "''s4''" "''s4''"] by (simp add: two_bobs_client_def example_peer_def)
  ultimately show ?thesis using wf
    by (simp add: two_bobs_client_def example_peer_def example_client_def
        connections_closed_def)
qed

text \<open>
  Claim C10. An ice-candidate whose sender has no session on the receiving client leaves
  the client exactly as it was: no session is created, nothing is sent, no error is
  reported. When the sender has a session, that session, looked up by the sender's
  socketId, is the one whose engine receives the candidate, and every other session is
  untouched.
\<close>

theorem ice_candidate_without_session_dropped:
  "(map_of (remotePeers c) sender = None
      \<longrightarrow> on_ice_candidate c sender candidate newResult addResult = c)
   \<and> (\<forall>peer cand.
         map_of (remotePeers c) sender = Some peer
         \<longrightarrow> map_of (remotePeers
                 (on_ice_candidate c sender (Some cand) (Resolved ()) addResult)) sender
               = Some (peer\<lparr>peerConnection :=
                         (peerConnection peer)\<lparr>calls := calls (peerConnection peer)
                                                  @ [AddIceCandidate cand]\<rparr>\<rparr>)
             \<and> (\<forall>k. k \<noteq> sender
                  \<longrightarrow> map_of (remotePeers
                         (on_ice_candidate c sender candidate newResult addResult)) k
                        = map_of (remotePeers c) k))"
  by (auto simp: on_ice_candidate_def Let_def console_def AList.update_conv'
      split: option.splits settled.splits)

theorem ice_candidate_without_session_dropped_witness:
  "map_of (remotePeers example_client) ''s9'' = None
   \<and> on_ice_candidate example_client ''s9'' (Some ''cand'') (Resolved ()) (Resolved ())
       = example_client
   \<and> map_of (remotePeers example_client) ''s2'' = Some example_peer
   \<and> map_of (remotePeers
        (on_ice_candidate example_client ''s2'' (Some ''cand'') (Resolved ()) (Resolved ())))
        ''s2''
       = Some (example_peer\<lparr>peerConnection := example_engine\<lparr>calls := [AddIceCandidate ''cand'']\<rparr>\<rparr>)"
proof -
  have a: "map_of (remotePeers example_client) ''s9'' = None"
    by (simp add: example_client_def)
  have b: "map_of (remotePeers example_client) ''s2'' = Some example_peer"
    by (simp add: example_client_def)
  note t = ice_candidate_without_session_dropped
             [of example_client _ "Some ''cand''" "Resolved ()" "Resolved ()"]
  from t [of "''s9''"] a
  have 1: "on_ice_candidate example_client ''s9'' (Some ''cand'') (Resolved ()) (Resolved ())
             = example_client" by blast
  from t [of "''s2''"] b
  have 2: "map_of (remotePeers
        (on_ice_candidate example_client ''s2'' (Some ''cand'') (Resolved ()) (Resolved ())))
        ''s2''
       = Some (example_peer\<lparr>peerConnection :=
                 (peerConnection example_peer)\<lparr>calls := calls (peerConnection example_peer)
                                                  @ [AddIceCandidate ''cand'']\<rparr>\<rparr>)" by blast
  from a b 1 2 show ?thesis by (simp add: example_peer_def example_engine_def)
qed

subsection \<open>Toggling a local track\<close>

lemma has_kind_set_enabled [simp]: "has_kind (set_enabled h t b) k x = has_kind h k x"
  by (simp add: has_kind_def set_enabled_def split: option.splits)

lemma enabled_of_set_enabled:
  "enabled_of (set_enabled h t b) x = (if x = t \<and> h t \<noteq> None then b else enabled_of h x)"
  by (simp add: enabled_of_def set_enabled_def split: option.splits)

lemma sender_of_kind_cong:
  "(\<And>x. has_kind h' k x = has_kind h k x) \<Longrightarrow> sender_of_kind h' k ss = sender_of_kind h k ss"
  by (simp add: sender_of_kind_def cong: option.case_cong)

lemma sender_of_kind_has_kind: "sender_of_kind h k ss = Some t \<Longrightarrow> has_kind h k t"
  by (auto simp: sender_of_kind_def find_Some_iff split: option.splits)

lemma has_kind_present: "has_kind h k t \<Longrightarrow> h t \<noteq> None"
  by (cases "h t") (simp_all add: has_kind_def)

lemma mirrored_cong:
  "(\<And>x. has_kind h' k x = has_kind h k x) \<Longrightarrow> mirrored h' k peers = mirrored h k peers"
  by (simp add: mirrored_def sender_of_kind_cong [of h' k h])

lemma has_kind_mirror_enabled [simp]:
  "has_kind (mirror_enabled k v peers h) k' x = has_kind h k' x"
  by (induction k v peers h rule: mirror_enabled.induct) (auto split: option.splits)

lemma enabled_of_mirror_enabled:
  "enabled_of (mirror_enabled k v peers h) x
     = (if x \<in> mirrored h k peers then enabled_of h v else enabled_of h x)"
proof (induction peers arbitrary: h)
  case Nil
  then show ?case by (simp add: mirrored_def)
next
  case (Cons peer rest)
  show ?case
  proof (cases "sender_of_kind h k (senders (peerConnection peer))")
    case None
    then have "mirrored h k (peer # rest) = mirrored h k rest" by (auto simp: mirrored_def)
    with None Cons.IH [of h] show ?thesis by simp
  next
    case (Some t)
    let ?h1 = "set_enabled h t (enabled_of h v)"
    have present: "h t \<noteq> None"
      using Some by (intro has_kind_present sender_of_kind_has_kind)
    have m: "mirrored ?h1 k rest = mirrored h k rest" by (rule mirrored_cong) simp
    have ins: "mirrored h k (peer # rest) = insert t (mirrored h k rest)"
      using Some by (auto simp: mirrored_def)
    have v: "enabled_of ?h1 v = enabled_of h v" by (simp add: enabled_of_set_enabled)
    have "enabled_of (mirror_enabled k v (peer # rest) h) x
            = enabled_of (mirror_enabled k v rest ?h1) x" using Some by simp
    also have "\<dots> = (if x \<in> mirrored ?h1 k rest then enabled_of ?h1 v else enabled_of ?h1 x)"
      by (rule Cons.IH)
    also have "\<dots> = (if x \<in> mirrored h k (peer # rest) then enabled_of h v else enabled_of h x)"
      unfolding m ins v using present by (simp add: enabled_of_set_enabled)
    finally show ?thesis .
  qed
qed

lemma first_of_kind_has_kind: "first_of_kind h k ts = Some v \<Longrightarrow> has_kind h k v"
  by (auto simp: first_of_kind_def find_Some_iff)

lemma first_of_kind_cong:
  "(\<And>x. has_kind h' k x = has_kind h k x) \<Longrightarrow> first_of_kind h' k ts = first_of_kind h k ts"
proof -
  assume "\<And>x. has_kind h' k x = has_kind h k x"
  then have "has_kind h' k = has_kind h k" by (simp add: fun_eq_iff)
  then show ?thesis by (simp add: first_of_kind_def)
qed

lemma toggleTrack_once:
  assumes "localStream c = Some ts" and "first_of_kind (tracks c) k ts = Some v"
  shows "localStream (fst (toggleTrack k c)) = Some ts"
    and "remotePeers (fst (toggleTrack k c)) = remotePeers c"
    and "has_kind (tracks (fst (toggleTrack k c))) k' x = has_kind (tracks c) k' x"
    and "snd (toggleTrack k c) = (\<not> enabled_of (tracks c) v)"
    and "enabled_of (tracks (fst (toggleTrack k c))) x
           = (if x = v \<or> x \<in> mirrored (tracks c) k (map snd (remotePeers c))
              then \<not> enabled_of (tracks c) v else enabled_of (tracks c) x)"
proof -
  let ?h1 = "set_enabled (tracks c) v (\<not> enabled_of (tracks c) v)"
  let ?h2 = "mirror_enabled k v (map snd (remotePeers c)) ?h1"
  have t: "toggleTrack k c = (c\<lparr>tracks := ?h2\<rparr>, enabled_of ?h2 v)"
    using assms by (simp add: toggleTrack_def Let_def)
  have present: "tracks c v \<noteq> None"
    using assms(2) by (intro has_kind_present first_of_kind_has_kind)
  have m: "mirrored ?h1 k (map snd (remotePeers c)) = mirrored (tracks c) k (map snd (remotePeers c))"
    by (rule mirrored_cong) simp
  have e: "enabled_of ?h2 x
             = (if x = v \<or> x \<in> mirrored (tracks c) k (map snd (remotePeers c))
                then \<not> enabled_of (tracks c) v else enabled_of (tracks c) x)" for x
    unfolding enabled_of_mirror_enabled m using present by (simp add: enabled_of_set_enabled)
  show "localStream (fst (toggleTrack k c)) = Some ts" using assms(1) by (simp add: t)
  show "remotePeers (fst (toggleTrack k c)) = remotePeers c" by (simp add: t)
  show "has_kind (tracks (fst (toggleTrack k c))) k' x = has_kind (tracks c) k' x"
    by (simp add: t)
  show "snd (toggleTrack k c) = (\<not> enabled_of (tracks c) v)" by (simp add: t e)
  show "enabled_of (tracks (fst (toggleTrack k c))) x
           = (if x = v \<or> x \<in> mirrored (tracks c) k (map snd (remotePeers c))
              then \<not> enabled_of (tracks c) v else enabled_of (tracks c) x)"
    by (simp add: t e)
qed

text \<open>
  Claim C9 as stated fails for the mirrored sender tracks. In the state below the local
  video track is enabled while the video track that the peer's sender holds is another
  track object and is disabled, as after a second call of the public
  \<^verbatim>\<open>getUserMedia\<close> that followed a toggle. Two calls of toggleCamera leave that sender
  track enabled: it does not return to its original state.
\<close>

theorem toggle_twice_changes_stale_sender_track:
  "localStream stale_sender_client = Some [0, 1]
   \<and> first_of_kind (tracks stale_sender_client) Video [0, 1] = Some 1
   \<and> sender_of_kind (tracks stale_sender_client) Video [Some 0, Some 2] = Some 2
   \<and> enabled_of (tracks stale_sender_client) 1
   \<and> \<not> enabled_of (tracks stale_sender_client) 2
   \<and> enabled_of (tracks (fst (toggleCamera (fst (toggleCamera stale_sender_client))))) 2"
  by (simp add: stale_sender_client_def example_client_def example_peer_def example_engine_def
      example_tracks_def toggleCamera_def toggleTrack_def first_of_kind_def sender_of_kind_def
      has_kind_def enabled_of_def set_enabled_def Let_def)

text \<open>
  Claim C9, amended. For the first local track \<open>v\<close> of the kind, one toggle flips the
  enabled bit of \<open>v\<close>, returns the new value, and gives that value to the track of the
  first sender of the kind of every peer session; every other track keeps its bit. A
  second toggle returns \<open>v\<close> to its original bit and gives every mirrored sender track
  that same bit, the original one of \<open>v\<close>: a mirrored sender track is back at its own
  original bit exactly when it agreed with \<open>v\<close> before the first toggle, as it does when
  the sender holds the local track itself.
\<close>

theorem toggleTrack_flips_and_mirrors:
  assumes "localStream c = Some ts" and "first_of_kind (tracks c) k ts = Some v"
  shows "snd (toggleTrack k c) = (\<not> enabled_of (tracks c) v)
       \<and> enabled_of (tracks (fst (toggleTrack k c))) v = (\<not> enabled_of (tracks c) v)
       \<and> (\<forall>t \<in> mirrored (tracks c) k (map snd (remotePeers c)).
             enabled_of (tracks (fst (toggleTrack k c))) t = (\<not> enabled_of (tracks c) v))
       \<and> (\<forall>x. x \<noteq> v \<and> x \<notin> mirrored (tracks c) k (map snd (remotePeers c))
             \<longrightarrow> enabled_of (tracks (fst (toggleTrack k c))) x = enabled_of (tracks c) x)
       \<and> snd (toggleTrack k (fst (toggleTrack k c))) = enabled_of (tracks c) v
       \<and> enabled_of (tracks (fst (toggleTrack k (fst (toggleTrack k c))))) v
           = enabled_of (tracks c) v
       \<and> (\<forall>t \<in> mirrored (tracks c) k (map snd (remotePeers c)).
             enabled_of (tracks (fst (toggleTrack k (fst (toggleTrack k c))))) t
               = enabled_of (tracks c) v)
       \<and> (\<forall>x. x \<noteq> v \<and> x \<notin> mirrored (tracks c) k (map snd (remotePeers c))
             \<longrightarrow> enabled_of (tracks (fst (toggleTrack k (fst (toggleTrack k c))))) x
                   = enabled_of (tracks c) x)"
proof -
  let ?c1 = "fst (toggleTrack k c)"
  note one = toggleTrack_once [OF assms]
  have ls: "localStream ?c1 = Some ts" by (rule one(1))
  have fk: "first_of_kind (tracks ?c1) k ts = Some v"
    using first_of_kind_cong [of "tracks ?c1" k "tracks c" ts] one(3) assms(2) by simp
  have mm: "mirrored (tracks ?c1) k (map snd (remotePeers ?c1))
              = mirrored (tracks c) k (map snd (remotePeers c))"
    unfolding one(2) by (rule mirrored_cong) (rule one(3))
  note two = toggleTrack_once [OF ls fk]
  show ?thesis
    unfolding two(4) two(5) mm one(4) one(5) by simp
qed

theorem toggleTrack_flips_and_mirrors_witness:
  "localStream example_client = Some [0, 1]
   \<and> first_of_kind (tracks example_client) Video [0, 1] = Some 1
   \<and> mirrored (tracks example_client) Video (map snd (remotePeers example_client)) = {1}
   \<and> enabled_of (tracks example_client) 1
   \<and> snd (toggleCamera example_client) = False
   \<and> \<not> enabled_of (tracks (fst (toggleCamera example_client))) 1
   \<and> enabled_of (tracks (fst (toggleCamera example_client))) 0
   \<and> snd (toggleCamera (fst (toggleCamera example_client))) = True
   \<and> enabled_of (tracks (fst (toggleCamera (fst (toggleCamera example_client))))) 1"
proof -
  have a: "localStream example_client = Some [0, 1]" by (simp add: example_client_def)
  have b: "first_of_kind (tracks example_client) Video [0, 1] = Some 1"
    by (simp add: example_client_def example_tracks_def first_of_kind_def has_kind_def)
  have m: "mirrored (tracks example_client) Video (map snd (remotePeers example_client)) = {1}"
    by (auto simp: mirrored_def example_client_def example_peer_def example_engine_def
        example_tracks_def sender_of_kind_def has_kind_def)
  have e: "enabled_of (tracks example_client) 1"
    by (simp add: example_client_def example_tracks_def enabled_of_def)
  have e0: "enabled_of (tracks example_client) 0"
    by (simp add: example_client_def example_tracks_def enabled_of_def)
  from toggleTrack_flips_and_mirrors [OF a b] a b m e e0 show ?thesis
    unfolding toggleCamera_def by simp
qed

end
